theory Spec2Isabelle
  imports Complex_Main "HOL-Library.Sublist"
begin

section \<open>Device discovery of the Digiducer examples\<close>

text \<open>
  The repository holds two copies of one discovery routine: \<^verbatim>\<open>FindDigiDevices\<close>
  (FindDigiDevices.py) and \<^verbatim>\<open>TMSFindDevices\<close> (TMS_Digital_Audio.py). Their text
  is the same, line for line, but for two places: the branch for a format code other
  than 1, 2 or 3 (a \<^verbatim>\<open>print\<close> in the first, a \<^verbatim>\<open>raise FormatError(...)\<close> in the
  second) and the check for an empty result (a \<^verbatim>\<open>print\<close> in the first, a
  \<^verbatim>\<open>raise NoDevicesFound(...)\<close> in the second). The parts that are the same are
  embedded once; the two loops are embedded separately.

  Strings are \<^typ>\<open>string\<close>, one \<^typ>\<open>char\<close> per character: device names are
  taken to be ASCII. Python integers are \<^typ>\<open>int\<close>, list positions and the device
  counter are \<^typ>\<open>nat\<close>.
\<close>

subsection \<open>Exceptions\<close>

text \<open>
  Exceptions are values. \<open>ValueError\<close> carries the operation that raised it,
  \<open>NameError\<close> and \<open>UnboundLocalError\<close> the name that was looked up, and
  \<open>Raised cls msg\<close> stands for \<^verbatim>\<open>raise cls(msg)\<close> where \<open>cls\<close> is bound.
\<close>

datatype py_error =
    ValueError string
  | ZeroDivisionError
  | NameError string
  | UnboundLocalError string
  | Raised string string

subsection \<open>Python string operations\<close>

text \<open>\<^verbatim>\<open>s[a:b]\<close> for integers \<open>a\<close> and \<open>b\<close>: a negative bound counts from the end,
  and both are clipped to the string.\<close>

definition slice_bound :: "nat \<Rightarrow> int \<Rightarrow> nat" where
  "slice_bound n i = (if i < 0 then nat (max 0 (int n + i)) else min n (nat i))"

definition py_slice :: "string \<Rightarrow> int \<Rightarrow> int \<Rightarrow> string" where
  "py_slice s a b =
     (let lo = slice_bound (length s) a; hi = slice_bound (length s) b
      in take (hi - lo) (drop lo s))"

text \<open>\<^verbatim>\<open>s.find(sub)\<close>: the lowest index where \<open>sub\<close> occurs in \<open>s\<close>, or -1.\<close>

fun find_from :: "string \<Rightarrow> string \<Rightarrow> nat option" where
  "find_from sub [] = (if sub = [] then Some 0 else None)"
| "find_from sub (c # cs) =
     (if prefix sub (c # cs) then Some 0
      else map_option Suc (find_from sub cs))"

definition py_find :: "string \<Rightarrow> string \<Rightarrow> int" where
  "py_find s sub = (case find_from sub s of None \<Rightarrow> - 1 | Some i \<Rightarrow> int i)"

text \<open>\<^verbatim>\<open>sub in s\<close>.\<close>

definition py_in :: "string \<Rightarrow> string \<Rightarrow> bool" where
  "py_in sub s = (find_from sub s \<noteq> None)"

subsection \<open>The host API (lines 28-37 of FindDigiDevices.py, 52-61 of TMS_Digital_Audio.py)\<close>

record host_api =
  api_name :: string

text \<open>The \<^verbatim>\<open>for api in hapis\<close> loop with its counter: it stops at the first entry
  named \<^verbatim>\<open>Windows WDM-KS\<close>, and falls through with the counter at the length of the
  list.\<close>

fun scan_hapis :: "host_api list \<Rightarrow> nat \<Rightarrow> nat" where
  "scan_hapis [] api_num = api_num"
| "scan_hapis (api # hapis) api_num =
     (if api_name api = ''Windows WDM-KS'' then api_num
      else scan_hapis hapis (api_num + 1))"

definition select_api :: "string \<Rightarrow> host_api list \<Rightarrow> nat" where
  "select_api platform hapis =
     (if platform = ''win32'' then scan_hapis hapis 0 else 0)"

subsection \<open>\<^verbatim>\<open>int(s)\<close> on a string\<close>

text \<open>
  CPython's \<^verbatim>\<open>int\<close> of an ASCII string in base 10: white space (space, tab, line
  feed, vertical tab, form feed, carriage return) is skipped at both ends, one sign may
  come first, then a run of decimal digits in which single underscores may stand between
  two digits. Anything else is a \<^verbatim>\<open>ValueError\<close>.
\<close>

definition is_space :: "char \<Rightarrow> bool" where
  "is_space c = (c \<in> set [CHR 0x20, CHR 0x09, CHR 0x0A, CHR 0x0B, CHR 0x0C, CHR 0x0D])"

definition is_digit :: "char \<Rightarrow> bool" where
  "is_digit c = (c \<in> set ''0123456789'')"

definition digit_val :: "char \<Rightarrow> nat" where
  "digit_val c = of_char c - 48"

fun digit_run :: "string \<Rightarrow> bool" where
  "digit_run [] = False"
| "digit_run [c] = is_digit c"
| "digit_run (c # d # cs) =
     (is_digit c \<and> (if d = CHR ''_'' then digit_run cs else digit_run (d # cs)))"

definition digits_value :: "string \<Rightarrow> nat" where
  "digits_value body = foldl (\<lambda>a c. 10 * a + digit_val c) 0 (filter is_digit body)"

definition py_int :: "string \<Rightarrow> py_error + int" where
  "py_int s =
     (let s1 = dropWhile is_space s;
          neg = (case s1 of c # _ \<Rightarrow> c = CHR ''-'' | [] \<Rightarrow> False);
          s2 = (case s1 of c # r \<Rightarrow> if c = CHR ''+'' \<or> c = CHR ''-'' then r else s1
                | [] \<Rightarrow> s1);
          body = takeWhile (\<lambda>c. is_digit c \<or> c = CHR ''_'') s2;
          rest = dropWhile (\<lambda>c. is_digit c \<or> c = CHR ''_'') s2
      in if digit_run body \<and> list_all is_space rest
         then Inr (if neg then - int (digits_value body) else int (digits_value body))
         else Inl (ValueError ''invalid literal for int() with base 10''))"

subsection \<open>\<^verbatim>\<open>datetime.datetime.strptime(s, '%y%m%d')\<close>\<close>

text \<open>
  The value is a \<^verbatim>\<open>datetime\<close> at midnight; only its calendar date is kept.
\<close>

record datetime =
  year :: nat
  month :: nat
  day :: nat

text \<open>
  CPython turns the format into the regular expression
  \<^verbatim>\<open>(?P<y>\d\d)(?P<m>1[0-2]|0[1-9]|[1-9])(?P<d>3[0-1]|[1-2]\d|0[1-9]|[1-9]| [1-9])\<close>,
  takes the first match at the start of the string in the order of the alternatives, and
  raises \<^verbatim>\<open>ValueError\<close> when there is none or when characters remain after it.
  \<open>month_alts\<close> lists the ways the month group can match, in that order, each with the
  rest of the string; \<open>day_first\<close> is the first alternative of the day group that
  matches.
\<close>

definition month_alts :: "string \<Rightarrow> (nat \<times> string) list" where
  "month_alts s =
     (case s of
        [] \<Rightarrow> []
      | [c] \<Rightarrow> (if c \<in> set ''123456789'' then [(digit_val c, [])] else [])
      | c # d # r \<Rightarrow>
          (if c = CHR ''1'' \<and> d \<in> set ''012'' then [(10 + digit_val d, r)] else []) @
          (if c = CHR ''0'' \<and> d \<in> set ''123456789'' then [(digit_val d, r)] else []) @
          (if c \<in> set ''123456789'' then [(digit_val c, d # r)] else []))"

definition day_first :: "string \<Rightarrow> (nat \<times> string) option" where
  "day_first s =
     (case s of
        [] \<Rightarrow> None
      | [c] \<Rightarrow> (if c \<in> set ''123456789'' then Some (digit_val c, []) else None)
      | c # d # r \<Rightarrow>
          (if c = CHR ''3'' \<and> d \<in> set ''01'' then Some (30 + digit_val d, r)
           else if c \<in> set ''12'' \<and> is_digit d then Some (10 * digit_val c + digit_val d, r)
           else if c = CHR ''0'' \<and> d \<in> set ''123456789'' then Some (digit_val d, r)
           else if c \<in> set ''123456789'' then Some (digit_val c, d # r)
           else if c = CHR '' '' \<and> d \<in> set ''123456789'' then Some (digit_val d, r)
           else None))"

fun month_day :: "(nat \<times> string) list \<Rightarrow> (nat \<times> nat \<times> string) option" where
  "month_day [] = None"
| "month_day ((m, r) # alts) =
     (case day_first r of
        Some (d, rest) \<Rightarrow> Some (m, d, rest)
      | None \<Rightarrow> month_day alts)"

definition is_leap :: "nat \<Rightarrow> bool" where
  "is_leap y = (y mod 4 = 0 \<and> (y mod 100 \<noteq> 0 \<or> y mod 400 = 0))"

definition days_in_month :: "nat \<Rightarrow> nat \<Rightarrow> nat" where
  "days_in_month y m =
     (if m = 2 then (if is_leap y then 29 else 28)
      else if m \<in> set [4, 6, 9, 11] then 30 else 31)"

definition strptime_ymd :: "string \<Rightarrow> py_error + datetime" where
  "strptime_ymd s =
     (case s of
        y1 # y2 # r \<Rightarrow>
          (if is_digit y1 \<and> is_digit y2 then
             (case month_day (month_alts r) of
                None \<Rightarrow> Inl (ValueError ''time data does not match format'')
              | Some (m, d, rest) \<Rightarrow>
                  if rest \<noteq> [] then Inl (ValueError ''unconverted data remains'')
                  else
                    let y = 10 * digit_val y1 + digit_val y2;
                        yr = (if y \<le> 68 then y + 2000 else y + 1900)
                    in if days_in_month yr m < d
                       then Inl (ValueError ''day is out of range for month'')
                       else Inr \<lparr>year = yr, month = m, day = d\<rparr>)
           else Inl (ValueError ''time data does not match format''))
      | _ \<Rightarrow> Inl (ValueError ''time data does not match format''))"

subsection \<open>Decoding one device name\<close>

text \<open>
  \<^verbatim>\<open>models\<close> and \<^verbatim>\<open>next((x for x in models if x in name), False)\<close>: the first
  model, in the order of the list, that occurs in the name; \<open>None\<close> is the
  \<^verbatim>\<open>False\<close> of the source.
\<close>

definition models :: "string list" where
  "models = [''485B'', ''333D'', ''633A'', ''SDC0'']"

definition match_model :: "string \<Rightarrow> string option" where
  "match_model name = List.find (\<lambda>x. py_in x name) models"

text \<open>
  The local variables \<^verbatim>\<open>form\<close>, \<^verbatim>\<open>sens\<close>, \<^verbatim>\<open>scale\<close> and \<^verbatim>\<open>date\<close> that a
  format branch assigns. \<^verbatim>\<open>scale\<close> is a numpy array of two \<^verbatim>\<open>float32\<close>: each is
  the quotient of a constant and an integer below \<open>2^53\<close>, computed in double precision
  and then narrowed, so it is a function of the exact quotient. That function, \<open>f32\<close>,
  is a parameter of the model.
\<close>

record 'f decoded =
  v_form :: int
  v_sens :: "int list"
  v_scale :: "'f list"
  v_date :: datetime

definition fdiv :: "(rat \<Rightarrow> 'f) \<Rightarrow> rat \<Rightarrow> int \<Rightarrow> py_error + 'f" where
  "fdiv f32 a b = (if b = 0 then Inl ZeroDivisionError else Inr (f32 (a / of_int b)))"

definition VOLTAGE :: int where
  "VOLTAGE = 1"

definition ACCELERATION :: int where
  "ACCELERATION = 0"

text \<open>The branch \<^verbatim>\<open>if fmt == "2" or fmt == '3'\<close> (lines 55-65, and 79-89).\<close>

definition decode_voltage :: "(rat \<Rightarrow> 'f) \<Rightarrow> string \<Rightarrow> int \<Rightarrow> string \<Rightarrow> py_error + 'f decoded" where
  "decode_voltage f32 name loc fmt =
     (case py_int (py_slice name (loc + 14) (loc + 21)) of
        Inl e \<Rightarrow> Inl e
      | Inr p0 \<Rightarrow>
     (case py_int (py_slice name (loc + 21) (loc + 28)) of
        Inl e \<Rightarrow> Inl e
      | Inr p1 \<Rightarrow>
     (let sens0 = (if fmt = ''3'' then p0 * 20 else p0);
          sens1 = (if fmt = ''3'' then p1 * 20 else p1)
      in
     (case fdiv f32 8388608 sens0 of
        Inl e \<Rightarrow> Inl e
      | Inr scale0 \<Rightarrow>
     (case fdiv f32 8388608 sens1 of
        Inl e \<Rightarrow> Inl e
      | Inr scale1 \<Rightarrow>
     (case strptime_ymd (py_slice name (loc + 28) (loc + 34)) of
        Inl e \<Rightarrow> Inl e
      | Inr dt \<Rightarrow>
          Inr \<lparr>v_form = 1, v_sens = [sens0, sens1], v_scale = [scale0, scale1],
               v_date = dt\<rparr>))))))"

text \<open>The branch \<^verbatim>\<open>elif fmt == "1"\<close> (lines 66-74, and 90-98).\<close>

definition decode_accel :: "(rat \<Rightarrow> 'f) \<Rightarrow> string \<Rightarrow> int \<Rightarrow> py_error + 'f decoded" where
  "decode_accel f32 name loc =
     (case py_int (py_slice name (loc + 14) (loc + 19)) of
        Inl e \<Rightarrow> Inl e
      | Inr sens0 \<Rightarrow>
     (case py_int (py_slice name (loc + 19) (loc + 24)) of
        Inl e \<Rightarrow> Inl e
      | Inr sens1 \<Rightarrow>
     (case fdiv f32 855400 sens0 of
        Inl e \<Rightarrow> Inl e
      | Inr scale0 \<Rightarrow>
     (case fdiv f32 855400 sens1 of
        Inl e \<Rightarrow> Inl e
      | Inr scale1 \<Rightarrow>
     (case strptime_ymd (py_slice name (loc + 24) (loc + 30)) of
        Inl e \<Rightarrow> Inl e
      | Inr dt \<Rightarrow>
          Inr \<lparr>v_form = 0, v_sens = [sens0, sens1], v_scale = [scale0, scale1],
               v_date = dt\<rparr>)))))"

text \<open>The dictionary appended to \<^verbatim>\<open>dev_info\<close> (lines 78-85, and 102-109).\<close>

record 'f dev_entry =
  device :: nat
  model :: string
  serial_number :: string
  date :: datetime
  format :: int
  sensitivity_int :: "int list"
  scale :: "'f list"

definition mk_entry :: "nat \<Rightarrow> string \<Rightarrow> int \<Rightarrow> 'f decoded \<Rightarrow> 'f dev_entry" where
  "mk_entry dev_num name loc v =
     \<lparr>device = dev_num,
      model = py_slice name loc (loc + 6),
      serial_number = py_slice name (loc + 8) (loc + 14),
      date = v_date v,
      format = v_form v,
      sensitivity_int = v_sens v,
      scale = v_scale v\<rparr>"

record raw_device =
  dev_name :: string
  dev_hostapi :: int

subsection \<open>Names in scope in TMS_Digital_Audio.py\<close>

text \<open>
  \<^verbatim>\<open>FormatError\<close> and \<^verbatim>\<open>NoDevicesFound\<close> are not assigned in
  \<^verbatim>\<open>TMSFindDevices\<close>, so Python looks them up among the globals of the module and
  then among the builtins. \<open>tms_globals\<close> lists every name the module binds: its
  imports (lines 12-18), its assignments and its \<^verbatim>\<open>def\<close>s, and the names every
  module has. \<open>py_builtins\<close> lists the names of the \<^verbatim>\<open>builtins\<close> module of
  Python 3.10, the version the file names.
\<close>

definition tms_globals :: "string list" where
  "tms_globals =
     [''np'', ''sd'', ''plt'', ''datetime'', ''platform'', ''time'', ''queue'',
      ''eu_sen'', ''eu_units'', ''blocksize'', ''samplerate'',
      ''TMSFindDevices'', ''callback'', ''time_ms'',
      ''info'', ''dev'', ''units'', ''scale'', ''ch'', ''q'', ''x'', ''figure'', ''ax'',
      ''first'', ''stream'', ''i'', ''data'', ''sdata'', ''line'', ''start'',
      ''__name__'', ''__doc__'', ''__package__'', ''__loader__'', ''__spec__'',
      ''__file__'', ''__cached__'', ''__builtins__'', ''__annotations__'']"

definition py_builtins :: "string list" where
  "py_builtins =
     [''ArithmeticError'', ''AssertionError'', ''AttributeError'', ''BaseException'',
      ''BlockingIOError'', ''BrokenPipeError'', ''BufferError'', ''BytesWarning'',
      ''ChildProcessError'', ''ConnectionAbortedError'', ''ConnectionError'',
      ''ConnectionRefusedError'', ''ConnectionResetError'', ''DeprecationWarning'',
      ''EOFError'', ''Ellipsis'', ''EncodingWarning'', ''EnvironmentError'',
      ''Exception'', ''False'', ''FileExistsError'', ''FileNotFoundError'',
      ''FloatingPointError'', ''FutureWarning'', ''GeneratorExit'', ''IOError'',
      ''ImportError'', ''ImportWarning'', ''IndentationError'', ''IndexError'',
      ''InterruptedError'', ''IsADirectoryError'', ''KeyError'', ''KeyboardInterrupt'',
      ''LookupError'', ''MemoryError'', ''ModuleNotFoundError'', ''NameError'', ''None'',
      ''NotADirectoryError'', ''NotImplemented'', ''NotImplementedError'', ''OSError'',
      ''OverflowError'', ''PendingDeprecationWarning'', ''PermissionError'',
      ''ProcessLookupError'', ''RecursionError'', ''ReferenceError'', ''ResourceWarning'',
      ''RuntimeError'', ''RuntimeWarning'', ''StopAsyncIteration'', ''StopIteration'',
      ''SyntaxError'', ''SyntaxWarning'', ''SystemError'', ''SystemExit'', ''TabError'',
      ''TimeoutError'', ''True'', ''TypeError'', ''UnboundLocalError'',
      ''UnicodeDecodeError'', ''UnicodeEncodeError'', ''UnicodeError'',
      ''UnicodeTranslateError'', ''UnicodeWarning'', ''UserWarning'', ''ValueError'',
      ''Warning'', ''WindowsError'', ''ZeroDivisionError'',
      ''__build_class__'', ''__debug__'', ''__doc__'', ''__import__'', ''__loader__'',
      ''__name__'', ''__package__'', ''__spec__'',
      ''abs'', ''aiter'', ''all'', ''anext'', ''any'', ''ascii'', ''bin'', ''bool'',
      ''breakpoint'', ''bytearray'', ''bytes'', ''callable'', ''chr'', ''classmethod'',
      ''compile'', ''complex'', ''copyright'', ''credits'', ''delattr'', ''dict'', ''dir'',
      ''divmod'', ''enumerate'', ''eval'', ''exec'', ''exit'', ''filter'', ''float'',
      ''format'', ''frozenset'', ''getattr'', ''globals'', ''hasattr'', ''hash'', ''help'',
      ''hex'', ''id'', ''input'', ''int'', ''isinstance'', ''issubclass'', ''iter'',
      ''len'', ''license'', ''list'', ''locals'', ''map'', ''max'', ''memoryview'',
      ''min'', ''next'', ''object'', ''oct'', ''open'', ''ord'', ''pow'', ''print'',
      ''property'', ''quit'', ''range'', ''repr'', ''reversed'', ''round'', ''set'',
      ''setattr'', ''slice'', ''sorted'', ''staticmethod'', ''str'', ''sum'', ''super'',
      ''tuple'', ''type'', ''vars'', ''zip'']"

text \<open>\<^verbatim>\<open>raise cls(msg)\<close> in a scope: the name is looked up first.\<close>

definition py_raise :: "string list \<Rightarrow> string \<Rightarrow> string \<Rightarrow> py_error" where
  "py_raise scope cls msg = (if cls \<in> set scope then Raised cls msg else NameError cls)"

subsection \<open>\<^verbatim>\<open>TMSFindDevices\<close> (TMS_Digital_Audio.py, lines 44-113)\<close>

text \<open>
  The \<^verbatim>\<open>for device in devices\<close> loop (lines 69-110), with \<^verbatim>\<open>dev_num\<close> and
  \<^verbatim>\<open>dev_info\<close> as they stand before the device. An exception ends the loop and
  the call.
\<close>

fun tms_loop ::
  "(rat \<Rightarrow> 'f) \<Rightarrow> nat \<Rightarrow> raw_device list \<Rightarrow> nat \<Rightarrow> 'f dev_entry list
     \<Rightarrow> py_error + 'f dev_entry list" where
  "tms_loop f32 api_num [] dev_num dev_info = Inr dev_info"
| "tms_loop f32 api_num (dv # devices) dev_num dev_info =
     (if dev_hostapi dv = int api_num then
        (let name = dev_name dv in
         case match_model name of
           None \<Rightarrow> tms_loop f32 api_num devices (dev_num + 1) dev_info
         | Some match \<Rightarrow>
             (let loc = py_find name match;
                  fmt = py_slice name (loc + 7) (loc + 8)
              in case (if fmt = ''2'' \<or> fmt = ''3'' then decode_voltage f32 name loc fmt
                       else if fmt = ''1'' then decode_accel f32 name loc
                       else Inl (py_raise (tms_globals @ py_builtins) ''FormatError''
                                   ''Expecting 1, 2, or 3 format'')) of
                   Inl e \<Rightarrow> Inl e
                 | Inr v \<Rightarrow>
                     tms_loop f32 api_num devices (dev_num + 1)
                       (dev_info @ [mk_entry dev_num name loc v])))
      else tms_loop f32 api_num devices (dev_num + 1) dev_info)"

definition TMSFindDevices ::
  "(rat \<Rightarrow> 'f) \<Rightarrow> string \<Rightarrow> host_api list \<Rightarrow> raw_device list
     \<Rightarrow> py_error + 'f dev_entry list" where
  "TMSFindDevices f32 platform hapis devices =
     (case tms_loop f32 (select_api platform hapis) devices 0 [] of
        Inl e \<Rightarrow> Inl e
      | Inr dev_info \<Rightarrow>
          if length dev_info = 0
          then Inl (py_raise (tms_globals @ py_builtins) ''NoDevicesFound''
                      ''No compatible devices found'')
          else Inr dev_info)"

subsection \<open>\<^verbatim>\<open>FindDigiDevices\<close> (FindDigiDevices.py, lines 20-89)\<close>

text \<open>
  The loop of lines 45-86. Here the branch for another format code only prints, and
  control reaches the \<^verbatim>\<open>append\<close> of line 78 with \<^verbatim>\<open>date\<close>, \<^verbatim>\<open>form\<close>,
  \<^verbatim>\<open>sens\<close> and \<^verbatim>\<open>scale\<close> as an earlier device of the same call left them:
  \<open>vars\<close> holds them, \<open>None\<close> while they are unbound (a format branch assigns all four
  or raises). \<^verbatim>\<open>date\<close> is the first of them the dictionary display reads. \<open>out\<close> is
  what has been printed, and is returned with the outcome.
\<close>

fun digi_loop ::
  "(rat \<Rightarrow> 'f) \<Rightarrow> nat \<Rightarrow> raw_device list \<Rightarrow> nat \<Rightarrow> 'f dev_entry list
     \<Rightarrow> 'f decoded option \<Rightarrow> string list
     \<Rightarrow> string list \<times> (py_error + 'f dev_entry list)" where
  "digi_loop f32 api_num [] dev_num dev_info vars out = (out, Inr dev_info)"
| "digi_loop f32 api_num (dv # devices) dev_num dev_info vars out =
     (if dev_hostapi dv = int api_num then
        (let name = dev_name dv in
         case match_model name of
           None \<Rightarrow> digi_loop f32 api_num devices (dev_num + 1) dev_info vars out
         | Some match \<Rightarrow>
             (let loc = py_find name match;
                  fmt = py_slice name (loc + 7) (loc + 8)
              in if fmt = ''2'' \<or> fmt = ''3'' \<or> fmt = ''1'' then
                   (case (if fmt = ''2'' \<or> fmt = ''3'' then decode_voltage f32 name loc fmt
                          else decode_accel f32 name loc) of
                      Inl e \<Rightarrow> (out, Inl e)
                    | Inr v \<Rightarrow>
                        digi_loop f32 api_num devices (dev_num + 1)
                          (dev_info @ [mk_entry dev_num name loc v]) (Some v) out)
                 else
                   (case vars of
                      None \<Rightarrow>
                        (out @ [''Expecting 1, 2, or 3 format''],
                         Inl (UnboundLocalError ''date''))
                    | Some v \<Rightarrow>
                        digi_loop f32 api_num devices (dev_num + 1)
                          (dev_info @ [mk_entry dev_num name loc v]) vars
                          (out @ [''Expecting 1, 2, or 3 format'']))))
      else digi_loop f32 api_num devices (dev_num + 1) dev_info vars out)"

definition FindDigiDevices ::
  "(rat \<Rightarrow> 'f) \<Rightarrow> string \<Rightarrow> host_api list \<Rightarrow> raw_device list
     \<Rightarrow> string list \<times> (py_error + 'f dev_entry list)" where
  "FindDigiDevices f32 platform hapis devices =
     (case digi_loop f32 (select_api platform hapis) devices 0 [] None [] of
        (out, Inl e) \<Rightarrow> (out, Inl e)
      | (out, Inr dev_info) \<Rightarrow>
          if length dev_info = 0
          then (out @ [''No compatible devices found''], Inr dev_info)
          else (out, Inr dev_info))"

subsection \<open>Names for stating the properties\<close>

text \<open>
  \<open>fmt_of name m\<close> is the value the loops give \<^verbatim>\<open>fmt\<close> for a name in which the
  model \<open>m\<close> was found, and \<open>passes api_num dv\<close> says that the raw device \<open>dv\<close> gets
  through both tests of the loops: its host API is the selected one and its name holds
  one of the models.
\<close>

definition fmt_of :: "string \<Rightarrow> string \<Rightarrow> string" where
  "fmt_of name m = py_slice name (py_find name m + 7) (py_find name m + 8)"

definition passes :: "nat \<Rightarrow> raw_device \<Rightarrow> bool" where
  "passes api_num dv = (dev_hostapi dv = int api_num \<and> match_model (dev_name dv) \<noteq> None)"

text \<open>
  \<open>name_model\<close> and \<open>name_serial\<close> are the values the loops give \<^verbatim>\<open>model\<close> and
  \<^verbatim>\<open>serialnum\<close> for a name; \<open>ident\<close> is what identifies an entry: its device
  number, model and serial number. \<open>other_format\<close> says that a name holds a model and
  that its format code is none of 1, 2 and 3.
\<close>

definition name_model :: "string \<Rightarrow> string" where
  "name_model name =
     (case match_model name of
        None \<Rightarrow> []
      | Some m \<Rightarrow> py_slice name (py_find name m) (py_find name m + 6))"

definition name_serial :: "string \<Rightarrow> string" where
  "name_serial name =
     (case match_model name of
        None \<Rightarrow> []
      | Some m \<Rightarrow> py_slice name (py_find name m + 8) (py_find name m + 14))"

definition ident :: "'f dev_entry \<Rightarrow> nat \<times> string \<times> string" where
  "ident r = (device r, model r, serial_number r)"

definition other_format :: "string \<Rightarrow> bool" where
  "other_format name =
     (case match_model name of
        None \<Rightarrow> False
      | Some m \<Rightarrow> fmt_of name m \<noteq> ''1'' \<and> fmt_of name m \<noteq> ''2'' \<and> fmt_of name m \<noteq> ''3'')"

section \<open>Properties\<close>

subsection \<open>One step of each loop\<close>

lemma decode_voltage_parsed:
  assumes "py_int (py_slice name (loc + 14) (loc + 21)) = Inr pa"
    and "py_int (py_slice name (loc + 21) (loc + 28)) = Inr pb"
    and "sa = (if fmt = ''3'' then pa * 20 else pa)"
    and "sb = (if fmt = ''3'' then pb * 20 else pb)"
  shows "decode_voltage f32 name loc fmt =
     (if sa = 0 \<or> sb = 0 then Inl ZeroDivisionError
      else case strptime_ymd (py_slice name (loc + 28) (loc + 34)) of
             Inl e \<Rightarrow> Inl e
           | Inr dt \<Rightarrow>
               Inr \<lparr>v_form = VOLTAGE, v_sens = [sa, sb],
                    v_scale = [f32 (8388608 / of_int sa), f32 (8388608 / of_int sb)],
                    v_date = dt\<rparr>)"
  using assms(1,2) unfolding assms(3,4)
  by (simp add: decode_voltage_def fdiv_def VOLTAGE_def Let_def split: sum.splits)

lemma decode_accel_parsed:
  assumes "py_int (py_slice name (loc + 14) (loc + 19)) = Inr s0"
    and "py_int (py_slice name (loc + 19) (loc + 24)) = Inr s1"
  shows "decode_accel f32 name loc =
     (if s0 = 0 \<or> s1 = 0 then Inl ZeroDivisionError
      else case strptime_ymd (py_slice name (loc + 24) (loc + 30)) of
             Inl e \<Rightarrow> Inl e
           | Inr dt \<Rightarrow>
               Inr \<lparr>v_form = ACCELERATION, v_sens = [s0, s1],
                    v_scale = [f32 (855400 / of_int s0), f32 (855400 / of_int s1)],
                    v_date = dt\<rparr>)"
  using assms
  by (simp add: decode_accel_def fdiv_def ACCELERATION_def Let_def split: sum.splits)

lemma format_error_unbound:
  "py_raise (tms_globals @ py_builtins) ''FormatError'' msg = NameError ''FormatError''"
  by (simp add: py_raise_def tms_globals_def py_builtins_def)

lemma no_devices_found_unbound:
  "py_raise (tms_globals @ py_builtins) ''NoDevicesFound'' msg = NameError ''NoDevicesFound''"
  by (simp add: py_raise_def tms_globals_def py_builtins_def)

lemma tms_loop_matched:
  assumes "dev_hostapi dv = int api_num"
    and "name = dev_name dv"
    and "match_model name = Some m"
    and "loc = py_find name m"
    and "fmt = py_slice name (loc + 7) (loc + 8)"
  shows "tms_loop f32 api_num (dv # devices) dev_num dev_info =
     (case (if fmt = ''2'' \<or> fmt = ''3'' then decode_voltage f32 name loc fmt
            else if fmt = ''1'' then decode_accel f32 name loc
            else Inl (NameError ''FormatError'')) of
        Inl e \<Rightarrow> Inl e
      | Inr v \<Rightarrow> tms_loop f32 api_num devices (dev_num + 1)
                  (dev_info @ [mk_entry dev_num name loc v]))"
  using assms(1) assms(3) [unfolded assms(2)] unfolding assms(5) assms(4) assms(2)
  by (simp add: Let_def format_error_unbound)

lemma digi_loop_matched:
  assumes "dev_hostapi dv = int api_num"
    and "name = dev_name dv"
    and "match_model name = Some m"
    and "loc = py_find name m"
    and "fmt = py_slice name (loc + 7) (loc + 8)"
  shows "digi_loop f32 api_num (dv # devices) dev_num dev_info vars out =
     (if fmt = ''2'' \<or> fmt = ''3'' \<or> fmt = ''1''
      then (case (if fmt = ''2'' \<or> fmt = ''3'' then decode_voltage f32 name loc fmt
                  else decode_accel f32 name loc) of
              Inl e \<Rightarrow> (out, Inl e)
            | Inr v \<Rightarrow> digi_loop f32 api_num devices (dev_num + 1)
                        (dev_info @ [mk_entry dev_num name loc v]) (Some v) out)
      else (case vars of
              None \<Rightarrow> (out @ [''Expecting 1, 2, or 3 format''], Inl (UnboundLocalError ''date''))
            | Some v \<Rightarrow> digi_loop f32 api_num devices (dev_num + 1)
                          (dev_info @ [mk_entry dev_num name loc v]) vars
                          (out @ [''Expecting 1, 2, or 3 format''])))"
  using assms(1) assms(3) [unfolded assms(2)] unfolding assms(5) assms(4) assms(2)
  by (simp add: Let_def)

lemma tms_loop_not_passing:
  "\<not> passes api_num dv \<Longrightarrow>
   tms_loop f32 api_num (dv # devices) dev_num dev_info =
     tms_loop f32 api_num devices (dev_num + 1) dev_info"
  by (auto simp: passes_def Let_def)

lemma digi_loop_not_passing:
  "\<not> passes api_num dv \<Longrightarrow>
   digi_loop f32 api_num (dv # devices) dev_num dev_info vars out =
     digi_loop f32 api_num devices (dev_num + 1) dev_info vars out"
  by (auto simp: passes_def Let_def)

declare tms_loop.simps(2) [simp del] digi_loop.simps(2) [simp del]

subsection \<open>The host API\<close>

lemma scan_hapis_takeWhile:
  "scan_hapis hapis n = n + length (takeWhile (\<lambda>a. api_name a \<noteq> ''Windows WDM-KS'') hapis)"
  by (induction hapis arbitrary: n) simp_all

text \<open>
  Claim C9. On \<^verbatim>\<open>win32\<close> the selected index is that of the first host API named
  exactly \<^verbatim>\<open>Windows WDM-KS\<close>: no entry before it has that name and the entry at it
  has. When no entry has the name it is the length of the sequence, not an error. On
  every other platform it is 0, whatever the sequence holds.
\<close>

theorem select_api_first_match:
  "(platform = ''win32'' \<longrightarrow>
      select_api platform hapis \<le> length hapis \<and>
      (\<forall>i < select_api platform hapis. api_name (hapis ! i) \<noteq> ''Windows WDM-KS'') \<and>
      (select_api platform hapis < length hapis \<longrightarrow>
         api_name (hapis ! select_api platform hapis) = ''Windows WDM-KS'') \<and>
      ((\<forall>i < length hapis. api_name (hapis ! i) \<noteq> ''Windows WDM-KS'') \<longrightarrow>
         select_api platform hapis = length hapis)) \<and>
   (platform \<noteq> ''win32'' \<longrightarrow> select_api platform hapis = 0)"
proof -
  let ?P = "\<lambda>a. api_name a \<noteq> ''Windows WDM-KS''"
  let ?k = "length (takeWhile ?P hapis)"
  have k: "scan_hapis hapis 0 = ?k"
    by (simp add: scan_hapis_takeWhile)
  have le: "?k \<le> length hapis"
    by (rule length_takeWhile_le)
  have before: "\<forall>i < ?k. ?P (hapis ! i)"
  proof (intro allI impI)
    fix i assume i: "i < ?k"
    have "takeWhile ?P hapis ! i = hapis ! i"
      using i by (rule takeWhile_nth)
    moreover have "takeWhile ?P hapis ! i \<in> set (takeWhile ?P hapis)"
      using i by (rule nth_mem)
    ultimately show "?P (hapis ! i)"
      using set_takeWhileD by metis
  qed
  have at: "?k < length hapis \<longrightarrow> \<not> ?P (hapis ! ?k)"
    using nth_length_takeWhile by blast
  have none: "(\<forall>i < length hapis. ?P (hapis ! i)) \<longrightarrow> ?k = length hapis"
    using at le by (metis le_neq_implies_less)
  show ?thesis
    unfolding select_api_def using k le before at none by simp
qed

theorem select_api_first_match_witness:
  "select_api ''win32'' [\<lparr>api_name = ''MME''\<rparr>, \<lparr>api_name = ''Windows WDM-KS''\<rparr>, \<lparr>api_name = ''Windows WDM-KS''\<rparr>] = 1 \<and>
   select_api ''win32'' [\<lparr>api_name = ''MME''\<rparr>, \<lparr>api_name = ''Windows WASAPI''\<rparr>] = 2 \<and>
   select_api ''linux'' [\<lparr>api_name = ''Windows WDM-KS''\<rparr>, \<lparr>api_name = ''ALSA''\<rparr>] = 0"
  using select_api_first_match [of "''win32''" "[\<lparr>api_name = ''MME''\<rparr>, \<lparr>api_name = ''Windows WDM-KS''\<rparr>, \<lparr>api_name = ''Windows WDM-KS''\<rparr>]"]
    select_api_first_match [of "''win32''" "[\<lparr>api_name = ''MME''\<rparr>, \<lparr>api_name = ''Windows WASAPI''\<rparr>]"]
    select_api_first_match [of "''linux''" "[\<lparr>api_name = ''Windows WDM-KS''\<rparr>, \<lparr>api_name = ''ALSA''\<rparr>]"]
  by (simp add: select_api_def)

subsection \<open>The format branches\<close>

lemmas py_eval =
  py_slice_def slice_bound_def py_find_def py_in_def match_model_def models_def
  py_int_def is_space_def is_digit_def digits_value_def digit_val_def
  strptime_ymd_def month_alts_def day_first_def days_in_month_def is_leap_def

text \<open>
  Claim C2. A raw device that passes the host-API test, whose name holds a model and has
  the format code \<^verbatim>\<open>3\<close>, and whose two 7-character sensitivity fields parse as the
  integers \<open>s0\<close> and \<open>s1\<close>: in both routines the entry appended for it has the
  sensitivity pair \<open>[20 * s0, 20 * s1]\<close>, the scale pair
  \<open>[8388608 / (20 * s0), 8388608 / (20 * s1)]\<close> (each narrowed to float32) and the format
  VOLTAGE. No entry is appended, and the call ends with the exception, when a
  sensitivity is 0 or the date field does not parse.
\<close>

theorem voltage_code3_entry:
  assumes "dev_hostapi dv = int api_num"
    and "name = dev_name dv"
    and "match_model name = Some m"
    and "loc = py_find name m"
    and "py_slice name (loc + 7) (loc + 8) = ''3''"
    and "py_int (py_slice name (loc + 14) (loc + 21)) = Inr s0"
    and "py_int (py_slice name (loc + 21) (loc + 28)) = Inr s1"
  shows
    "tms_loop f32 api_num (dv # devices) dev_num dev_info =
       (if s0 = 0 \<or> s1 = 0 then Inl ZeroDivisionError
        else case strptime_ymd (py_slice name (loc + 28) (loc + 34)) of
               Inl e \<Rightarrow> Inl e
             | Inr dt \<Rightarrow>
                 tms_loop f32 api_num devices (dev_num + 1)
                   (dev_info @
                    [\<lparr>device = dev_num, model = py_slice name loc (loc + 6),
                      serial_number = py_slice name (loc + 8) (loc + 14), date = dt,
                      format = VOLTAGE, sensitivity_int = [20 * s0, 20 * s1],
                      scale = [f32 (8388608 / of_int (20 * s0)),
                               f32 (8388608 / of_int (20 * s1))]\<rparr>])) \<and>
     digi_loop f32 api_num (dv # devices) dev_num dev_info vars out =
       (if s0 = 0 \<or> s1 = 0 then (out, Inl ZeroDivisionError)
        else case strptime_ymd (py_slice name (loc + 28) (loc + 34)) of
               Inl e \<Rightarrow> (out, Inl e)
             | Inr dt \<Rightarrow>
                 digi_loop f32 api_num devices (dev_num + 1)
                   (dev_info @
                    [\<lparr>device = dev_num, model = py_slice name loc (loc + 6),
                      serial_number = py_slice name (loc + 8) (loc + 14), date = dt,
                      format = VOLTAGE, sensitivity_int = [20 * s0, 20 * s1],
                      scale = [f32 (8388608 / of_int (20 * s0)),
                               f32 (8388608 / of_int (20 * s1))]\<rparr>])
                   (Some \<lparr>v_form = VOLTAGE, v_sens = [20 * s0, 20 * s1],
                          v_scale = [f32 (8388608 / of_int (20 * s0)),
                                     f32 (8388608 / of_int (20 * s1))],
                          v_date = dt\<rparr>) out)"
proof -
  have fmt: "''3'' = py_slice name (loc + 7) (loc + 8)"
    using assms(5) by simp
  have dec: "decode_voltage f32 name loc ''3'' =
      (if s0 = 0 \<or> s1 = 0 then Inl ZeroDivisionError
       else case strptime_ymd (py_slice name (loc + 28) (loc + 34)) of
              Inl e \<Rightarrow> Inl e
            | Inr dt \<Rightarrow>
                Inr \<lparr>v_form = VOLTAGE, v_sens = [20 * s0, 20 * s1],
                     v_scale = [f32 (8388608 / of_int (20 * s0)),
                                f32 (8388608 / of_int (20 * s1))],
                     v_date = dt\<rparr>)"
    using decode_voltage_parsed [OF assms(6) assms(7), where fmt = "''3''"
        and sa = "20 * s0" and sb = "20 * s1" and ?f32.0 = f32]
    by simp
  have t: "tms_loop f32 api_num (dv # devices) dev_num dev_info =
      (case decode_voltage f32 name loc ''3'' of
         Inl e \<Rightarrow> Inl e
       | Inr v \<Rightarrow> tms_loop f32 api_num devices (dev_num + 1)
                    (dev_info @ [mk_entry dev_num name loc v]))"
    using tms_loop_matched [OF assms(1-4) fmt, of f32 devices dev_num dev_info]
    by simp
  have d: "digi_loop f32 api_num (dv # devices) dev_num dev_info vars out =
      (case decode_voltage f32 name loc ''3'' of
         Inl e \<Rightarrow> (out, Inl e)
       | Inr v \<Rightarrow> digi_loop f32 api_num devices (dev_num + 1)
                    (dev_info @ [mk_entry dev_num name loc v]) (Some v) out)"
    using digi_loop_matched [OF assms(1-4) fmt, of f32 devices dev_num dev_info vars out]
    by simp
  show ?thesis
    unfolding t d dec by (simp add: mk_entry_def split: sum.splits)
qed

theorem voltage_code3_entry_witness:
  "tms_loop (\<lambda>q. q) 0 [\<lparr>dev_name = ''485B39 312345602560000256000220615'', dev_hostapi = 0\<rparr>] 0 [] =
     Inr [\<lparr>device = 0, model = ''485B39'', serial_number = ''123456'',
           date = \<lparr>year = 2022, month = 6, day = 15\<rparr>, format = 1,
           sensitivity_int = [5120000, 5120000],
           scale = [8388608 / 5120000, 8388608 / 5120000]\<rparr>] \<and>
   digi_loop (\<lambda>q. q) 0 [\<lparr>dev_name = ''485B39 312345602560000256000220615'', dev_hostapi = 0\<rparr>] 0 [] None [] =
     ([], Inr [\<lparr>device = 0, model = ''485B39'', serial_number = ''123456'',
           date = \<lparr>year = 2022, month = 6, day = 15\<rparr>, format = 1,
           sensitivity_int = [5120000, 5120000],
           scale = [8388608 / 5120000, 8388608 / 5120000]\<rparr>])"
proof -
  let ?n = "''485B39 312345602560000256000220615''"
  let ?dv = "\<lparr>dev_name = ?n, dev_hostapi = 0\<rparr>"
  have h1: "dev_hostapi ?dv = int 0" by simp
  have h2: "?n = dev_name ?dv" by simp
  have h3: "match_model ?n = Some ''485B''" by (simp add: py_eval)
  have h4: "(0::int) = py_find ?n ''485B''" by (simp add: py_eval)
  have h5: "py_slice ?n (0 + 7) (0 + 8) = ''3''" by (simp add: py_eval)
  have h6: "py_int (py_slice ?n (0 + 14) (0 + 21)) = Inr 256000" by (simp add: py_eval)
  have h7: "py_int (py_slice ?n (0 + 21) (0 + 28)) = Inr 256000" by (simp add: py_eval)
  have h8: "strptime_ymd (py_slice ?n (0 + 28) (0 + 34)) = Inr \<lparr>year = 2022, month = 6, day = 15\<rparr>"
    by (simp add: py_eval)
  have h9: "py_slice ?n 0 (0 + 6) = ''485B39''" "py_slice ?n (0 + 8) (0 + 14) = ''123456''"
    by (simp_all add: py_eval)
  show ?thesis
    using voltage_code3_entry [OF h1 h2 h3 h4 h5 h6 h7, of "\<lambda>q. q" "[]" 0 "[]" None "[]"]
    unfolding h8 h9 by (simp add: VOLTAGE_def)
qed

text \<open>
  Claim C4. The same for the format code \<^verbatim>\<open>2\<close>: the sensitivity pair is
  \<open>[s0, s1]\<close> as parsed, the scale pair is \<open>[8388608 / s0, 8388608 / s1]\<close> with no
  factor of 20, and the format is VOLTAGE.
\<close>

theorem voltage_code2_entry:
  assumes "dev_hostapi dv = int api_num"
    and "name = dev_name dv"
    and "match_model name = Some m"
    and "loc = py_find name m"
    and "py_slice name (loc + 7) (loc + 8) = ''2''"
    and "py_int (py_slice name (loc + 14) (loc + 21)) = Inr s0"
    and "py_int (py_slice name (loc + 21) (loc + 28)) = Inr s1"
  shows
    "tms_loop f32 api_num (dv # devices) dev_num dev_info =
       (if s0 = 0 \<or> s1 = 0 then Inl ZeroDivisionError
        else case strptime_ymd (py_slice name (loc + 28) (loc + 34)) of
               Inl e \<Rightarrow> Inl e
             | Inr dt \<Rightarrow>
                 tms_loop f32 api_num devices (dev_num + 1)
                   (dev_info @
                    [\<lparr>device = dev_num, model = py_slice name loc (loc + 6),
                      serial_number = py_slice name (loc + 8) (loc + 14), date = dt,
                      format = VOLTAGE, sensitivity_int = [s0, s1],
                      scale = [f32 (8388608 / of_int s0),
                               f32 (8388608 / of_int s1)]\<rparr>])) \<and>
     digi_loop f32 api_num (dv # devices) dev_num dev_info vars out =
       (if s0 = 0 \<or> s1 = 0 then (out, Inl ZeroDivisionError)
        else case strptime_ymd (py_slice name (loc + 28) (loc + 34)) of
               Inl e \<Rightarrow> (out, Inl e)
             | Inr dt \<Rightarrow>
                 digi_loop f32 api_num devices (dev_num + 1)
                   (dev_info @
                    [\<lparr>device = dev_num, model = py_slice name loc (loc + 6),
                      serial_number = py_slice name (loc + 8) (loc + 14), date = dt,
                      format = VOLTAGE, sensitivity_int = [s0, s1],
                      scale = [f32 (8388608 / of_int s0),
                               f32 (8388608 / of_int s1)]\<rparr>])
                   (Some \<lparr>v_form = VOLTAGE, v_sens = [s0, s1],
                          v_scale = [f32 (8388608 / of_int s0),
                                     f32 (8388608 / of_int s1)],
                          v_date = dt\<rparr>) out)"
proof -
  have fmt: "''2'' = py_slice name (loc + 7) (loc + 8)"
    using assms(5) by simp
  have dec: "decode_voltage f32 name loc ''2'' =
      (if s0 = 0 \<or> s1 = 0 then Inl ZeroDivisionError
       else case strptime_ymd (py_slice name (loc + 28) (loc + 34)) of
              Inl e \<Rightarrow> Inl e
            | Inr dt \<Rightarrow>
                Inr \<lparr>v_form = VOLTAGE, v_sens = [s0, s1],
                     v_scale = [f32 (8388608 / of_int s0),
                                f32 (8388608 / of_int s1)],
                     v_date = dt\<rparr>)"
    using decode_voltage_parsed [OF assms(6) assms(7), where fmt = "''2''"
        and sa = s0 and sb = s1 and ?f32.0 = f32]
    by simp
  have t: "tms_loop f32 api_num (dv # devices) dev_num dev_info =
      (case decode_voltage f32 name loc ''2'' of
         Inl e \<Rightarrow> Inl e
       | Inr v \<Rightarrow> tms_loop f32 api_num devices (dev_num + 1)
                    (dev_info @ [mk_entry dev_num name loc v]))"
    using tms_loop_matched [OF assms(1-4) fmt, of f32 devices dev_num dev_info]
    by simp
  have d: "digi_loop f32 api_num (dv # devices) dev_num dev_info vars out =
      (case decode_voltage f32 name loc ''2'' of
         Inl e \<Rightarrow> (out, Inl e)
       | Inr v \<Rightarrow> digi_loop f32 api_num devices (dev_num + 1)
                    (dev_info @ [mk_entry dev_num name loc v]) (Some v) out)"
    using digi_loop_matched [OF assms(1-4) fmt, of f32 devices dev_num dev_info vars out]
    by simp
  show ?thesis
    unfolding t d dec by (simp add: mk_entry_def split: sum.splits)
qed

theorem voltage_code2_entry_witness:
  "tms_loop (\<lambda>q. q) 0 [\<lparr>dev_name = ''485B39 212345602560000256000220615'', dev_hostapi = 0\<rparr>] 0 [] =
     Inr [\<lparr>device = 0, model = ''485B39'', serial_number = ''123456'',
           date = \<lparr>year = 2022, month = 6, day = 15\<rparr>, format = 1,
           sensitivity_int = [256000, 256000],
           scale = [8388608 / 256000, 8388608 / 256000]\<rparr>] \<and>
   digi_loop (\<lambda>q. q) 0 [\<lparr>dev_name = ''485B39 212345602560000256000220615'', dev_hostapi = 0\<rparr>] 0 [] None [] =
     ([], Inr [\<lparr>device = 0, model = ''485B39'', serial_number = ''123456'',
           date = \<lparr>year = 2022, month = 6, day = 15\<rparr>, format = 1,
           sensitivity_int = [256000, 256000],
           scale = [8388608 / 256000, 8388608 / 256000]\<rparr>])"
proof -
  let ?n = "''485B39 212345602560000256000220615''"
  let ?dv = "\<lparr>dev_name = ?n, dev_hostapi = 0\<rparr>"
  have h1: "dev_hostapi ?dv = int 0" by simp
  have h2: "?n = dev_name ?dv" by simp
  have h3: "match_model ?n = Some ''485B''" by (simp add: py_eval)
  have h4: "(0::int) = py_find ?n ''485B''" by (simp add: py_eval)
  have h5: "py_slice ?n (0 + 7) (0 + 8) = ''2''" by (simp add: py_eval)
  have h6: "py_int (py_slice ?n (0 + 14) (0 + 21)) = Inr 256000" by (simp add: py_eval)
  have h7: "py_int (py_slice ?n (0 + 21) (0 + 28)) = Inr 256000" by (simp add: py_eval)
  have h8: "strptime_ymd (py_slice ?n (0 + 28) (0 + 34)) = Inr \<lparr>year = 2022, month = 6, day = 15\<rparr>"
    by (simp add: py_eval)
  have h9: "py_slice ?n 0 (0 + 6) = ''485B39''" "py_slice ?n (0 + 8) (0 + 14) = ''123456''"
    by (simp_all add: py_eval)
  show ?thesis
    using voltage_code2_entry [OF h1 h2 h3 h4 h5 h6 h7, of "\<lambda>q. q" "[]" 0 "[]" None "[]"]
    unfolding h8 h9 by (simp add: VOLTAGE_def)
qed

text \<open>A date field of six characters is read as YYMMDD.\<close>

lemma day_first_two:
  "day_first [d1, d2] = Some (d, []) \<Longrightarrow> d = 10 * digit_val d1 + digit_val d2"
  by (auto simp: day_first_def digit_val_def split: if_splits)

lemma day_first_three:
  "day_first [a, b, c] \<noteq> Some (d, [])"
  by (auto simp: day_first_def split: if_splits)

lemma month_day_four:
  assumes "month_day (month_alts [m1, m2, d1, d2]) = Some (m, d, [])"
  shows "m = 10 * digit_val m1 + digit_val m2 \<and> d = 10 * digit_val d1 + digit_val d2"
proof -
  have third: "month_day [(k, [m2, d1, d2])] \<noteq> Some (m, d, [])" for k
    using day_first_three [of m2 d1 d2 d] by (auto split: option.splits)
  consider (a) "m1 = CHR ''1'' \<and> m2 \<in> set ''012''"
    | (b) "m1 = CHR ''0'' \<and> m2 \<in> set ''123456789''"
    | (c) "\<not> (m1 = CHR ''1'' \<and> m2 \<in> set ''012'') \<and> \<not> (m1 = CHR ''0'' \<and> m2 \<in> set ''123456789'')"
    by blast
  then show ?thesis
  proof cases
    case a
    then have alts: "month_alts [m1, m2, d1, d2] = [(10 + digit_val m2, [d1, d2]), (1, [m2, d1, d2])]"
      by (simp add: month_alts_def digit_val_def)
    show ?thesis
    proof (cases "day_first [d1, d2]")
      case None
      then show ?thesis using assms third [of 1] unfolding alts by simp
    next
      case (Some p)
      then show ?thesis
        using assms a day_first_two [of d1 d2 d] unfolding alts
        by (cases p) (auto simp: digit_val_def)
    qed
  next
    case b
    then have alts: "month_alts [m1, m2, d1, d2] = [(digit_val m2, [d1, d2])]"
      by (simp add: month_alts_def)
    show ?thesis
    proof (cases "day_first [d1, d2]")
      case None
      then show ?thesis using assms unfolding alts by simp
    next
      case (Some p)
      then show ?thesis
        using assms b day_first_two [of d1 d2 d] unfolding alts
        by (cases p) (auto simp: digit_val_def)
    qed
  next
    case c
    then have "month_alts [m1, m2, d1, d2] = [] \<or> (\<exists>k. month_alts [m1, m2, d1, d2] = [(k, [m2, d1, d2])])"
      by (auto simp: month_alts_def)
    then show ?thesis
      using assms third by auto
  qed
qed

lemma strptime_ymd_six:
  assumes "strptime_ymd [y1, y2, m1, m2, d1, d2] = Inr dt"
  shows "year dt = (if 10 * digit_val y1 + digit_val y2 \<le> 68
                    then 10 * digit_val y1 + digit_val y2 + 2000
                    else 10 * digit_val y1 + digit_val y2 + 1900) \<and>
         month dt = 10 * digit_val m1 + digit_val m2 \<and>
         day dt = 10 * digit_val d1 + digit_val d2"
proof -
  from assms obtain m d where
    md: "month_day (month_alts [m1, m2, d1, d2]) = Some (m, d, [])"
    and dt: "dt = \<lparr>year = (if 10 * digit_val y1 + digit_val y2 \<le> 68
                    then 10 * digit_val y1 + digit_val y2 + 2000
                    else 10 * digit_val y1 + digit_val y2 + 1900), month = m, day = d\<rparr>"
    by (auto simp: strptime_ymd_def Let_def split: if_splits option.splits)
  from month_day_four [OF md] dt show ?thesis by simp
qed

text \<open>
  Claim C3. For the format code \<^verbatim>\<open>1\<close> the two sensitivity fields are the 5
  characters at offsets +14 to +19 and +19 to +24 from the position of the model; the
  scale pair is \<open>[855400 / s0, 855400 / s1]\<close>, the format is ACCELERATION, and the
  date is \<^verbatim>\<open>strptime\<close> with \<^verbatim>\<open>%y%m%d\<close> of the 6 characters at offsets +24 to
  +30, which follow the second sensitivity field: when there are six of them and they
  parse, the first two are the year, the next two the month and the last two the day.
\<close>

theorem accel_code1_entry:
  assumes "dev_hostapi dv = int api_num"
    and "name = dev_name dv"
    and "match_model name = Some m"
    and "loc = py_find name m"
    and "py_slice name (loc + 7) (loc + 8) = ''1''"
    and "py_int (py_slice name (loc + 14) (loc + 19)) = Inr s0"
    and "py_int (py_slice name (loc + 19) (loc + 24)) = Inr s1"
  shows
    "(tms_loop f32 api_num (dv # devices) dev_num dev_info =
       (if s0 = 0 \<or> s1 = 0 then Inl ZeroDivisionError
        else case strptime_ymd (py_slice name (loc + 24) (loc + 30)) of
               Inl e \<Rightarrow> Inl e
             | Inr dt \<Rightarrow>
                 tms_loop f32 api_num devices (dev_num + 1)
                   (dev_info @
                    [\<lparr>device = dev_num, model = py_slice name loc (loc + 6),
                      serial_number = py_slice name (loc + 8) (loc + 14), date = dt,
                      format = ACCELERATION, sensitivity_int = [s0, s1],
                      scale = [f32 (855400 / of_int s0),
                               f32 (855400 / of_int s1)]\<rparr>])) \<and>
      digi_loop f32 api_num (dv # devices) dev_num dev_info vars out =
       (if s0 = 0 \<or> s1 = 0 then (out, Inl ZeroDivisionError)
        else case strptime_ymd (py_slice name (loc + 24) (loc + 30)) of
               Inl e \<Rightarrow> (out, Inl e)
             | Inr dt \<Rightarrow>
                 digi_loop f32 api_num devices (dev_num + 1)
                   (dev_info @
                    [\<lparr>device = dev_num, model = py_slice name loc (loc + 6),
                      serial_number = py_slice name (loc + 8) (loc + 14), date = dt,
                      format = ACCELERATION, sensitivity_int = [s0, s1],
                      scale = [f32 (855400 / of_int s0),
                               f32 (855400 / of_int s1)]\<rparr>])
                   (Some \<lparr>v_form = ACCELERATION, v_sens = [s0, s1],
                          v_scale = [f32 (855400 / of_int s0),
                                     f32 (855400 / of_int s1)],
                          v_date = dt\<rparr>) out)) \<and>
     (py_slice name (loc + 24) (loc + 30) = [y1, y2, m1, m2, d1, d2] \<longrightarrow>
      strptime_ymd (py_slice name (loc + 24) (loc + 30)) = Inr ymd \<longrightarrow>
        year ymd = (if 10 * digit_val y1 + digit_val y2 \<le> 68
                    then 10 * digit_val y1 + digit_val y2 + 2000
                    else 10 * digit_val y1 + digit_val y2 + 1900) \<and>
        month ymd = 10 * digit_val m1 + digit_val m2 \<and>
        day ymd = 10 * digit_val d1 + digit_val d2)"
    (is "?loops \<and> ?yymmdd")
proof -
  have fmt: "''1'' = py_slice name (loc + 7) (loc + 8)"
    using assms(5) by simp
  have dec: "decode_accel f32 name loc =
      (if s0 = 0 \<or> s1 = 0 then Inl ZeroDivisionError
       else case strptime_ymd (py_slice name (loc + 24) (loc + 30)) of
              Inl e \<Rightarrow> Inl e
            | Inr dt \<Rightarrow>
                Inr \<lparr>v_form = ACCELERATION, v_sens = [s0, s1],
                     v_scale = [f32 (855400 / of_int s0),
                                f32 (855400 / of_int s1)],
                     v_date = dt\<rparr>)"
    by (rule decode_accel_parsed [OF assms(6) assms(7)])
  have t: "tms_loop f32 api_num (dv # devices) dev_num dev_info =
      (case decode_accel f32 name loc of
         Inl e \<Rightarrow> Inl e
       | Inr v \<Rightarrow> tms_loop f32 api_num devices (dev_num + 1)
                    (dev_info @ [mk_entry dev_num name loc v]))"
    using tms_loop_matched [OF assms(1-4) fmt, of f32 devices dev_num dev_info]
    by simp
  have d: "digi_loop f32 api_num (dv # devices) dev_num dev_info vars out =
      (case decode_accel f32 name loc of
         Inl e \<Rightarrow> (out, Inl e)
       | Inr v \<Rightarrow> digi_loop f32 api_num devices (dev_num + 1)
                    (dev_info @ [mk_entry dev_num name loc v]) (Some v) out)"
    using digi_loop_matched [OF assms(1-4) fmt, of f32 devices dev_num dev_info vars out]
    by simp
  have loops: ?loops
    unfolding t d dec by (simp add: mk_entry_def split: sum.splits)
  have yymmdd: ?yymmdd
    using strptime_ymd_six [of y1 y2 m1 m2 d1 d2 ymd] by simp
  show ?thesis
    using loops yymmdd by (rule conjI)
qed

theorem accel_code1_entry_witness:
  "tms_loop (\<lambda>q. q) 0 [\<lparr>dev_name = ''333D01 10007770123401234221203'', dev_hostapi = 0\<rparr>] 0 [] =
     Inr [\<lparr>device = 0, model = ''333D01'', serial_number = ''000777'',
           date = \<lparr>year = 2022, month = 12, day = 3\<rparr>, format = 0,
           sensitivity_int = [1234, 1234],
           scale = [855400 / 1234, 855400 / 1234]\<rparr>] \<and>
   digi_loop (\<lambda>q. q) 0 [\<lparr>dev_name = ''333D01 10007770123401234221203'', dev_hostapi = 0\<rparr>] 0 [] None [] =
     ([], Inr [\<lparr>device = 0, model = ''333D01'', serial_number = ''000777'',
           date = \<lparr>year = 2022, month = 12, day = 3\<rparr>, format = 0,
           sensitivity_int = [1234, 1234],
           scale = [855400 / 1234, 855400 / 1234]\<rparr>]) \<and>
   strptime_ymd ''221203'' = Inr \<lparr>year = 2022, month = 12, day = 3\<rparr>"
proof -
  let ?n = "''333D01 10007770123401234221203''"
  let ?dv = "\<lparr>dev_name = ?n, dev_hostapi = 0\<rparr>"
  have h1: "dev_hostapi ?dv = int 0" by simp
  have h2: "?n = dev_name ?dv" by simp
  have h3: "match_model ?n = Some ''333D''" by (simp add: py_eval)
  have h4: "(0::int) = py_find ?n ''333D''" by (simp add: py_eval)
  have h5: "py_slice ?n (0 + 7) (0 + 8) = ''1''" by (simp add: py_eval)
  have h6: "py_int (py_slice ?n (0 + 14) (0 + 19)) = Inr 1234" by (simp add: py_eval)
  have h7: "py_int (py_slice ?n (0 + 19) (0 + 24)) = Inr 1234" by (simp add: py_eval)
  have h8: "strptime_ymd ''221203'' = Inr \<lparr>year = 2022, month = 12, day = 3\<rparr>"
    by (simp add: py_eval)
  have h9: "py_slice ?n 0 (0 + 6) = ''333D01''" "py_slice ?n (0 + 8) (0 + 14) = ''000777''"
    by (simp_all add: py_eval)
  have h10: "py_slice ?n (0 + 24) (0 + 30) = ''221203''"
    by (simp add: py_eval)
  show ?thesis
    using accel_code1_entry [OF h1 h2 h3 h4 h5 h6 h7, of "\<lambda>q. q" "[]" 0 "[]" None "[]"
        "CHR ''2''" "CHR ''2''" "CHR ''1''" "CHR ''2''" "CHR ''0''" "CHR ''3''"
        "\<lparr>year = 2022, month = 12, day = 3\<rparr>"]
    unfolding h8 h9 h10 by (simp add: ACCELERATION_def)
qed

subsection \<open>The entries a call returns\<close>

lemma indexed_filter_Cons:
  "map (\<lambda>i. g i ((d # ds) ! (i - n)))
     (filter (\<lambda>i. p ((d # ds) ! (i - n))) [n..<Suc (n + length ds)]) =
   (if p d then [g n d] else []) @
   map (\<lambda>i. g i (ds ! (i - Suc n)))
     (filter (\<lambda>i. p (ds ! (i - Suc n))) [Suc n..<Suc (n + length ds)])"
proof -
  let ?r = "[Suc n..<Suc (n + length ds)]"
  have upt: "[n..<Suc (n + length ds)] = n # ?r"
    by (rule upt_conv_Cons) simp
  have nth: "(d # ds) ! (i - n) = ds ! (i - Suc n)" if "i \<in> set ?r" for i
  proof -
    from that have "i - n = Suc (i - Suc n)" by auto
    then show ?thesis by simp
  qed
  have f: "filter (\<lambda>i. p ((d # ds) ! (i - n))) ?r = filter (\<lambda>i. p (ds ! (i - Suc n))) ?r"
    by (rule filter_cong [OF refl]) (simp only: nth)
  have m: "map (\<lambda>i. g i ((d # ds) ! (i - n))) (filter (\<lambda>i. p (ds ! (i - Suc n))) ?r) =
           map (\<lambda>i. g i (ds ! (i - Suc n))) (filter (\<lambda>i. p (ds ! (i - Suc n))) ?r)"
    by (rule map_cong [OF refl]) (simp add: nth)
  have "map (\<lambda>i. g i ((d # ds) ! (i - n))) (filter (\<lambda>i. p ((d # ds) ! (i - n))) (n # ?r)) =
        (if p d then [g n d] else []) @
        map (\<lambda>i. g i ((d # ds) ! (i - n))) (filter (\<lambda>i. p ((d # ds) ! (i - n))) ?r)"
    by simp
  then show ?thesis
    unfolding upt f m .
qed

lemma tms_loop_passing:
  assumes "passes api_num dv"
    and "tms_loop f32 api_num (dv # devices) dev_num dev_info = Inr res"
  shows "\<exists>e. tms_loop f32 api_num devices (dev_num + 1) (dev_info @ [e]) = Inr res \<and>
             ident e = (dev_num, name_model (dev_name dv), name_serial (dev_name dv))"
proof -
  from assms(1) obtain m where h: "dev_hostapi dv = int api_num" and m: "match_model (dev_name dv) = Some m"
    by (auto simp: passes_def)
  from assms(2) tms_loop_matched [OF h refl m refl refl, of f32 devices dev_num dev_info]
  obtain v where "tms_loop f32 api_num devices (dev_num + 1)
      (dev_info @ [mk_entry dev_num (dev_name dv) (py_find (dev_name dv) m) v]) = Inr res"
    by (auto split: sum.splits)
  moreover have "ident (mk_entry dev_num (dev_name dv) (py_find (dev_name dv) m) v) =
      (dev_num, name_model (dev_name dv), name_serial (dev_name dv))"
    by (simp add: ident_def mk_entry_def name_model_def name_serial_def m)
  ultimately show ?thesis by blast
qed

lemma digi_loop_passing:
  assumes "passes api_num dv"
    and "digi_loop f32 api_num (dv # devices) dev_num dev_info vars out = (out', Inr res)"
  shows "\<exists>e vars' out''.
           digi_loop f32 api_num devices (dev_num + 1) (dev_info @ [e]) vars' out'' = (out', Inr res) \<and>
           ident e = (dev_num, name_model (dev_name dv), name_serial (dev_name dv))"
proof -
  from assms(1) obtain m where h: "dev_hostapi dv = int api_num" and m: "match_model (dev_name dv) = Some m"
    by (auto simp: passes_def)
  from assms(2) digi_loop_matched [OF h refl m refl refl, of f32 devices dev_num dev_info vars out]
  obtain v vars' out'' where "digi_loop f32 api_num devices (dev_num + 1)
      (dev_info @ [mk_entry dev_num (dev_name dv) (py_find (dev_name dv) m) v]) vars' out'' = (out', Inr res)"
    by (auto split: sum.splits if_splits option.splits)
  moreover have "ident (mk_entry dev_num (dev_name dv) (py_find (dev_name dv) m) v) =
      (dev_num, name_model (dev_name dv), name_serial (dev_name dv))"
    by (simp add: ident_def mk_entry_def name_model_def name_serial_def m)
  ultimately show ?thesis by blast
qed

lemma tms_loop_idents:
  "tms_loop f32 api_num devices dev_num dev_info = Inr res \<Longrightarrow>
   map ident res = map ident dev_info @
     map (\<lambda>i. (i, name_model (dev_name (devices ! (i - dev_num))),
                  name_serial (dev_name (devices ! (i - dev_num)))))
       (filter (\<lambda>i. passes api_num (devices ! (i - dev_num)))
          [dev_num..<dev_num + length devices])"
proof (induction devices arbitrary: dev_num dev_info)
  case Nil
  then show ?case by simp
next
  case (Cons dv devices)
  show ?case
  proof (cases "passes api_num dv")
    case True
    from tms_loop_passing [OF True Cons.prems] obtain e where
      e: "tms_loop f32 api_num devices (dev_num + 1) (dev_info @ [e]) = Inr res"
      and ie: "ident e = (dev_num, name_model (dev_name dv), name_serial (dev_name dv))"
      by blast
    from Cons.IH [OF e] ie True show ?thesis
      using indexed_filter_Cons [where p = "passes api_num" and d = dv and ds = devices
          and n = dev_num
          and g = "\<lambda>i d. (i, name_model (dev_name d), name_serial (dev_name d))"]
      by (simp del: upt_Suc)
  next
    case False
    from Cons.prems have "tms_loop f32 api_num devices (dev_num + 1) dev_info = Inr res"
      by (simp add: tms_loop_not_passing [OF False])
    from Cons.IH [OF this] False show ?thesis
      using indexed_filter_Cons [where p = "passes api_num" and d = dv and ds = devices
          and n = dev_num
          and g = "\<lambda>i d. (i, name_model (dev_name d), name_serial (dev_name d))"]
      by (simp del: upt_Suc)
  qed
qed

lemma digi_loop_idents:
  "digi_loop f32 api_num devices dev_num dev_info vars out = (out', Inr res) \<Longrightarrow>
   map ident res = map ident dev_info @
     map (\<lambda>i. (i, name_model (dev_name (devices ! (i - dev_num))),
                  name_serial (dev_name (devices ! (i - dev_num)))))
       (filter (\<lambda>i. passes api_num (devices ! (i - dev_num)))
          [dev_num..<dev_num + length devices])"
proof (induction devices arbitrary: dev_num dev_info vars out)
  case Nil
  then show ?case by simp
next
  case (Cons dv devices)
  show ?case
  proof (cases "passes api_num dv")
    case True
    from digi_loop_passing [OF True Cons.prems] obtain e vars' out'' where
      e: "digi_loop f32 api_num devices (dev_num + 1) (dev_info @ [e]) vars' out'' = (out', Inr res)"
      and ie: "ident e = (dev_num, name_model (dev_name dv), name_serial (dev_name dv))"
      by blast
    from Cons.IH [OF e] ie True show ?thesis
      using indexed_filter_Cons [where p = "passes api_num" and d = dv and ds = devices
          and n = dev_num
          and g = "\<lambda>i d. (i, name_model (dev_name d), name_serial (dev_name d))"]
      by (simp del: upt_Suc)
  next
    case False
    from Cons.prems have "digi_loop f32 api_num devices (dev_num + 1) dev_info vars out = (out', Inr res)"
      by (simp add: digi_loop_not_passing [OF False])
    from Cons.IH [OF this] False show ?thesis
      using indexed_filter_Cons [where p = "passes api_num" and d = dv and ds = devices
          and n = dev_num
          and g = "\<lambda>i d. (i, name_model (dev_name d), name_serial (dev_name d))"]
      by (simp del: upt_Suc)
  qed
qed

lemma digi_loop_follows_tms_loop:
  "tms_loop f32 api_num devices dev_num dev_info = Inr res \<Longrightarrow>
   digi_loop f32 api_num devices dev_num dev_info vars out = (out, Inr res)"
proof (induction devices arbitrary: dev_num dev_info vars)
  case Nil
  then show ?case by simp
next
  case (Cons dv devices)
  show ?case
  proof (cases "passes api_num dv")
    case False
    with Cons show ?thesis
      by (simp add: tms_loop_not_passing digi_loop_not_passing)
  next
    case True
    then obtain m where h: "dev_hostapi dv = int api_num"
      and m: "match_model (dev_name dv) = Some m"
      by (auto simp: passes_def)
    let ?name = "dev_name dv"
    let ?loc = "py_find ?name m"
    let ?fmt = "py_slice ?name (?loc + 7) (?loc + 8)"
    from Cons.prems [unfolded tms_loop_matched [OF h refl m refl refl]]
    obtain v where code: "?fmt = ''2'' \<or> ?fmt = ''3'' \<or> ?fmt = ''1''"
      and dec: "(if ?fmt = ''2'' \<or> ?fmt = ''3'' then decode_voltage f32 ?name ?loc ?fmt
                 else decode_accel f32 ?name ?loc) = Inr v"
      and rest: "tms_loop f32 api_num devices (dev_num + 1)
                   (dev_info @ [mk_entry dev_num ?name ?loc v]) = Inr res"
      by (auto split: if_splits sum.splits)
    from Cons.IH [OF rest, of "Some v"] code dec show ?thesis
      unfolding digi_loop_matched [OF h refl m refl refl] by auto
  qed
qed

lemmas loop_eval =
  tms_loop.simps(2) digi_loop.simps(2) TMSFindDevices_def FindDigiDevices_def select_api_def
  decode_voltage_def decode_accel_def fdiv_def mk_entry_def Let_def
  format_error_unbound no_devices_found_unbound

text \<open>
  Claim C8. Whenever a call returns, its entries are those of the raw devices that pass
  both tests, in the order of the enumeration: the device numbers of the entries are the
  positions, counted from 0 in the whole enumeration, of the devices that pass, in
  increasing order, and each entry carries the model and serial number sliced from the
  name of the device at its number. This holds of both routines, and whenever
  \<^verbatim>\<open>TMSFindDevices\<close> returns a sequence, \<^verbatim>\<open>FindDigiDevices\<close> returns the same
  sequence and prints nothing.
\<close>

theorem discovery_order:
  "(TMSFindDevices f32 platform hapis devices = Inr res \<longrightarrow>
      map ident res =
        map (\<lambda>i. (i, name_model (dev_name (devices ! i)), name_serial (dev_name (devices ! i))))
          (filter (\<lambda>i. passes (select_api platform hapis) (devices ! i)) [0..<length devices])) \<and>
   (FindDigiDevices f32 platform hapis devices = (out, Inr res') \<longrightarrow>
      map ident res' =
        map (\<lambda>i. (i, name_model (dev_name (devices ! i)), name_serial (dev_name (devices ! i))))
          (filter (\<lambda>i. passes (select_api platform hapis) (devices ! i)) [0..<length devices])) \<and>
   (TMSFindDevices f32 platform hapis devices = Inr res \<longrightarrow>
      FindDigiDevices f32 platform hapis devices = ([], Inr res))"
proof (intro conjI impI)
  assume "TMSFindDevices f32 platform hapis devices = Inr res"
  then have "tms_loop f32 (select_api platform hapis) devices 0 [] = Inr res"
    by (auto simp: TMSFindDevices_def split: sum.splits if_splits)
  from tms_loop_idents [OF this] show "map ident res =
        map (\<lambda>i. (i, name_model (dev_name (devices ! i)), name_serial (dev_name (devices ! i))))
          (filter (\<lambda>i. passes (select_api platform hapis) (devices ! i)) [0..<length devices])"
    by simp
next
  assume "FindDigiDevices f32 platform hapis devices = (out, Inr res')"
  then obtain out' where "digi_loop f32 (select_api platform hapis) devices 0 [] None [] = (out', Inr res')"
    by (auto simp: FindDigiDevices_def split: prod.splits sum.splits if_splits)
  from digi_loop_idents [OF this] show "map ident res' =
        map (\<lambda>i. (i, name_model (dev_name (devices ! i)), name_serial (dev_name (devices ! i))))
          (filter (\<lambda>i. passes (select_api platform hapis) (devices ! i)) [0..<length devices])"
    by simp
next
  assume "TMSFindDevices f32 platform hapis devices = Inr res"
  then have loop: "tms_loop f32 (select_api platform hapis) devices 0 [] = Inr res"
    and nonempty: "length res \<noteq> 0"
    by (auto simp: TMSFindDevices_def split: sum.splits if_splits)
  from digi_loop_follows_tms_loop [OF loop, of None "[]"] nonempty
  show "FindDigiDevices f32 platform hapis devices = ([], Inr res)"
    by (simp add: FindDigiDevices_def)
qed

lemma example_tms:
  "TMSFindDevices (\<lambda>q. q) ''linux'' []
     [\<lparr>dev_name = ''HDA Intel PCH'', dev_hostapi = 0\<rparr>,
      \<lparr>dev_name = ''485B39 212345602560000256000220615'', dev_hostapi = 0\<rparr>,
      \<lparr>dev_name = ''333D01 10007770123401234221203'', dev_hostapi = 1\<rparr>,
      \<lparr>dev_name = ''333D01 10007770123401234221203'', dev_hostapi = 0\<rparr>] =
   Inr [\<lparr>device = 1, model = ''485B39'', serial_number = ''123456'',
         date = \<lparr>year = 2022, month = 6, day = 15\<rparr>, format = 1,
         sensitivity_int = [256000, 256000], scale = [4096 / 125, 4096 / 125]\<rparr>,
        \<lparr>device = 3, model = ''333D01'', serial_number = ''000777'',
         date = \<lparr>year = 2022, month = 12, day = 3\<rparr>, format = 0,
         sensitivity_int = [1234, 1234], scale = [427700 / 617, 427700 / 617]\<rparr>]"
  by (simp add: loop_eval py_eval)


lemma example_digi:
  "FindDigiDevices (\<lambda>q. q) ''linux'' []
     [\<lparr>dev_name = ''HDA Intel PCH'', dev_hostapi = 0\<rparr>,
      \<lparr>dev_name = ''485B39 212345602560000256000220615'', dev_hostapi = 0\<rparr>,
      \<lparr>dev_name = ''333D01 10007770123401234221203'', dev_hostapi = 1\<rparr>,
      \<lparr>dev_name = ''333D01 10007770123401234221203'', dev_hostapi = 0\<rparr>] =
   ([], Inr [\<lparr>device = 1, model = ''485B39'', serial_number = ''123456'',
         date = \<lparr>year = 2022, month = 6, day = 15\<rparr>, format = 1,
         sensitivity_int = [256000, 256000], scale = [4096 / 125, 4096 / 125]\<rparr>,
        \<lparr>device = 3, model = ''333D01'', serial_number = ''000777'',
         date = \<lparr>year = 2022, month = 12, day = 3\<rparr>, format = 0,
         sensitivity_int = [1234, 1234], scale = [427700 / 617, 427700 / 617]\<rparr>])"
  by (simp add: loop_eval py_eval)

lemma example_positions:
  "map (\<lambda>i. (i, name_model (dev_name
            ([\<lparr>dev_name = ''HDA Intel PCH'', dev_hostapi = 0\<rparr>,
              \<lparr>dev_name = ''485B39 212345602560000256000220615'', dev_hostapi = 0\<rparr>,
              \<lparr>dev_name = ''333D01 10007770123401234221203'', dev_hostapi = 1\<rparr>,
              \<lparr>dev_name = ''333D01 10007770123401234221203'', dev_hostapi = 0\<rparr>] ! i)),
          name_serial (dev_name
            ([\<lparr>dev_name = ''HDA Intel PCH'', dev_hostapi = 0\<rparr>,
              \<lparr>dev_name = ''485B39 212345602560000256000220615'', dev_hostapi = 0\<rparr>,
              \<lparr>dev_name = ''333D01 10007770123401234221203'', dev_hostapi = 1\<rparr>,
              \<lparr>dev_name = ''333D01 10007770123401234221203'', dev_hostapi = 0\<rparr>] ! i))))
     (filter (\<lambda>i. passes (select_api ''linux'' [])
            ([\<lparr>dev_name = ''HDA Intel PCH'', dev_hostapi = 0\<rparr>,
              \<lparr>dev_name = ''485B39 212345602560000256000220615'', dev_hostapi = 0\<rparr>,
              \<lparr>dev_name = ''333D01 10007770123401234221203'', dev_hostapi = 1\<rparr>,
              \<lparr>dev_name = ''333D01 10007770123401234221203'', dev_hostapi = 0\<rparr>] ! i))
        [0..<length
            [\<lparr>dev_name = ''HDA Intel PCH'', dev_hostapi = 0\<rparr>,
              \<lparr>dev_name = ''485B39 212345602560000256000220615'', dev_hostapi = 0\<rparr>,
              \<lparr>dev_name = ''333D01 10007770123401234221203'', dev_hostapi = 1\<rparr>,
              \<lparr>dev_name = ''333D01 10007770123401234221203'', dev_hostapi = 0\<rparr>]]) =
   [(1, ''485B39'', ''123456''), (3, ''333D01'', ''000777'')]"
  by (simp add: passes_def select_api_def name_model_def name_serial_def py_eval upt_rec)

theorem discovery_order_witness:
  "TMSFindDevices (\<lambda>q. q) ''linux'' []
     [\<lparr>dev_name = ''HDA Intel PCH'', dev_hostapi = 0\<rparr>,
      \<lparr>dev_name = ''485B39 212345602560000256000220615'', dev_hostapi = 0\<rparr>,
      \<lparr>dev_name = ''333D01 10007770123401234221203'', dev_hostapi = 1\<rparr>,
      \<lparr>dev_name = ''333D01 10007770123401234221203'', dev_hostapi = 0\<rparr>] =
   Inr [\<lparr>device = 1, model = ''485B39'', serial_number = ''123456'',
         date = \<lparr>year = 2022, month = 6, day = 15\<rparr>, format = 1,
         sensitivity_int = [256000, 256000], scale = [4096 / 125, 4096 / 125 :: rat]\<rparr>,
        \<lparr>device = 3, model = ''333D01'', serial_number = ''000777'',
         date = \<lparr>year = 2022, month = 12, day = 3\<rparr>, format = 0,
         sensitivity_int = [1234, 1234], scale = [427700 / 617, 427700 / 617]\<rparr>] \<and>
   FindDigiDevices (\<lambda>q. q) ''linux'' []
     [\<lparr>dev_name = ''HDA Intel PCH'', dev_hostapi = 0\<rparr>,
      \<lparr>dev_name = ''485B39 212345602560000256000220615'', dev_hostapi = 0\<rparr>,
      \<lparr>dev_name = ''333D01 10007770123401234221203'', dev_hostapi = 1\<rparr>,
      \<lparr>dev_name = ''333D01 10007770123401234221203'', dev_hostapi = 0\<rparr>] =
   ([], Inr [\<lparr>device = 1, model = ''485B39'', serial_number = ''123456'',
         date = \<lparr>year = 2022, month = 6, day = 15\<rparr>, format = 1,
         sensitivity_int = [256000, 256000], scale = [4096 / 125, 4096 / 125 :: rat]\<rparr>,
        \<lparr>device = 3, model = ''333D01'', serial_number = ''000777'',
         date = \<lparr>year = 2022, month = 12, day = 3\<rparr>, format = 0,
         sensitivity_int = [1234, 1234], scale = [427700 / 617, 427700 / 617]\<rparr>]) \<and>
   map ident
     [\<lparr>device = 1, model = ''485B39'', serial_number = ''123456'',
         date = \<lparr>year = 2022, month = 6, day = 15\<rparr>, format = 1,
         sensitivity_int = [256000, 256000], scale = [4096 / 125, 4096 / 125 :: rat]\<rparr>,
        \<lparr>device = 3, model = ''333D01'', serial_number = ''000777'',
         date = \<lparr>year = 2022, month = 12, day = 3\<rparr>, format = 0,
         sensitivity_int = [1234, 1234], scale = [427700 / 617, 427700 / 617]\<rparr>] =
   [(1, ''485B39'', ''123456''), (3, ''333D01'', ''000777'')]"
proof -
  have same: "FindDigiDevices (\<lambda>q. q) ''linux'' []
     [\<lparr>dev_name = ''HDA Intel PCH'', dev_hostapi = 0\<rparr>,
      \<lparr>dev_name = ''485B39 212345602560000256000220615'', dev_hostapi = 0\<rparr>,
      \<lparr>dev_name = ''333D01 10007770123401234221203'', dev_hostapi = 1\<rparr>,
      \<lparr>dev_name = ''333D01 10007770123401234221203'', dev_hostapi = 0\<rparr>] =
   ([], Inr [\<lparr>device = 1, model = ''485B39'', serial_number = ''123456'',
         date = \<lparr>year = 2022, month = 6, day = 15\<rparr>, format = 1,
         sensitivity_int = [256000, 256000], scale = [4096 / 125, 4096 / 125 :: rat]\<rparr>,
        \<lparr>device = 3, model = ''333D01'', serial_number = ''000777'',
         date = \<lparr>year = 2022, month = 12, day = 3\<rparr>, format = 0,
         sensitivity_int = [1234, 1234], scale = [427700 / 617, 427700 / 617]\<rparr>])"
    by (rule discovery_order [THEN conjunct2, THEN conjunct2, THEN mp, OF example_tms])
  have idents: "map ident
     [\<lparr>device = 1, model = ''485B39'', serial_number = ''123456'',
         date = \<lparr>year = 2022, month = 6, day = 15\<rparr>, format = 1,
         sensitivity_int = [256000, 256000], scale = [4096 / 125, 4096 / 125 :: rat]\<rparr>,
        \<lparr>device = 3, model = ''333D01'', serial_number = ''000777'',
         date = \<lparr>year = 2022, month = 12, day = 3\<rparr>, format = 0,
         sensitivity_int = [1234, 1234], scale = [427700 / 617, 427700 / 617]\<rparr>] =
   [(1, ''485B39'', ''123456''), (3, ''333D01'', ''000777'')]"
    by (rule trans [OF discovery_order [THEN conjunct2, THEN conjunct1, THEN mp, OF example_digi]
          example_positions])
  have idents_tms: "map ident
     [\<lparr>device = 1, model = ''485B39'', serial_number = ''123456'',
         date = \<lparr>year = 2022, month = 6, day = 15\<rparr>, format = 1,
         sensitivity_int = [256000, 256000], scale = [4096 / 125, 4096 / 125 :: rat]\<rparr>,
        \<lparr>device = 3, model = ''333D01'', serial_number = ''000777'',
         date = \<lparr>year = 2022, month = 12, day = 3\<rparr>, format = 0,
         sensitivity_int = [1234, 1234], scale = [427700 / 617, 427700 / 617]\<rparr>] =
   [(1, ''485B39'', ''123456''), (3, ''333D01'', ''000777'')]"
    by (rule trans [OF discovery_order [THEN conjunct1, THEN mp, OF example_tms]
          example_positions])
  from example_tms same idents idents_tms show ?thesis
    by (intro conjI)
qed

subsection \<open>How a call ends\<close>

lemma tms_loop_none_pass:
  "\<forall>dv \<in> set devices. \<not> passes api_num dv \<Longrightarrow>
   tms_loop f32 api_num devices dev_num dev_info = Inr dev_info"
  by (induction devices arbitrary: dev_num) (simp_all add: tms_loop_not_passing)

lemma digi_loop_none_pass:
  "\<forall>dv \<in> set devices. \<not> passes api_num dv \<Longrightarrow>
   digi_loop f32 api_num devices dev_num dev_info vars out = (out, Inr dev_info)"
  by (induction devices arbitrary: dev_num) (simp_all add: digi_loop_not_passing)

lemma tms_loop_other_format:
  assumes "passes api_num dv" and "other_format (dev_name dv)"
  shows "tms_loop f32 api_num (dv # devices) dev_num dev_info = Inl (NameError ''FormatError'')"
proof -
  from assms obtain m where h: "dev_hostapi dv = int api_num"
    and m: "match_model (dev_name dv) = Some m"
    and f: "fmt_of (dev_name dv) m \<noteq> ''1''" "fmt_of (dev_name dv) m \<noteq> ''2''"
      "fmt_of (dev_name dv) m \<noteq> ''3''"
    by (auto simp: passes_def other_format_def split: option.splits)
  show ?thesis
    using tms_loop_matched [OF h refl m refl refl, of f32 devices dev_num dev_info] f
    by (simp add: fmt_of_def)
qed

lemma tms_loop_step_cases:
  assumes "passes api_num dv"
  shows "(\<exists>e. tms_loop f32 api_num (dv # devices) dev_num dev_info = Inl e) \<or>
         (\<exists>e. tms_loop f32 api_num (dv # devices) dev_num dev_info =
               tms_loop f32 api_num devices (dev_num + 1) (dev_info @ [e]))"
proof -
  from assms obtain m where h: "dev_hostapi dv = int api_num"
    and m: "match_model (dev_name dv) = Some m"
    by (auto simp: passes_def)
  show ?thesis
    unfolding tms_loop_matched [OF h refl m refl refl]
    by (auto split: sum.splits)
qed

lemma tms_loop_aborts:
  "\<exists>dv \<in> set devices. passes api_num dv \<and> other_format (dev_name dv) \<Longrightarrow>
   \<exists>e. tms_loop f32 api_num devices dev_num dev_info = Inl e"
proof (induction devices arbitrary: dev_num dev_info)
  case Nil
  then show ?case by simp
next
  case (Cons dv devices)
  show ?case
  proof (cases "passes api_num dv")
    case False
    with Cons.prems have "\<exists>dv \<in> set devices. passes api_num dv \<and> other_format (dev_name dv)"
      by auto
    from Cons.IH [OF this] show ?thesis
      by (simp add: tms_loop_not_passing [OF False])
  next
    case True
    show ?thesis
    proof (cases "other_format (dev_name dv)")
      case True
      with \<open>passes api_num dv\<close> show ?thesis
        by (simp add: tms_loop_other_format)
    next
      case False
      with Cons.prems have rest: "\<exists>dv \<in> set devices. passes api_num dv \<and> other_format (dev_name dv)"
        by auto
      from tms_loop_step_cases [OF \<open>passes api_num dv\<close>, of f32 devices dev_num dev_info]
      show ?thesis
        using Cons.IH [OF rest] by metis
    qed
  qed
qed

lemma tms_loop_append:
  "tms_loop f32 api_num (pre @ post) dev_num dev_info =
     (case tms_loop f32 api_num pre dev_num dev_info of
        Inl e \<Rightarrow> Inl e
      | Inr info \<Rightarrow> tms_loop f32 api_num post (dev_num + length pre) info)"
proof (induction pre arbitrary: dev_num dev_info)
  case Nil
  then show ?case by simp
next
  case (Cons dv pre)
  show ?case
  proof (cases "passes api_num dv")
    case False
    then show ?thesis
      by (simp add: tms_loop_not_passing Cons.IH split: sum.splits)
  next
    case True
    then obtain m where h: "dev_hostapi dv = int api_num"
      and m: "match_model (dev_name dv) = Some m"
      by (auto simp: passes_def)
    show ?thesis
      unfolding append_Cons tms_loop_matched [OF h refl m refl refl]
      by (simp add: Cons.IH split: sum.splits)
  qed
qed

lemma py_int_error:
  "py_int s = Inl e \<Longrightarrow> \<exists>msg. e = ValueError msg"
  by (auto simp: py_int_def Let_def split: if_splits)

lemma strptime_ymd_error:
  "strptime_ymd s = Inl e \<Longrightarrow> \<exists>msg. e = ValueError msg"
  by (auto simp: strptime_ymd_def Let_def split: list.splits if_splits option.splits)

lemma decode_voltage_error:
  "decode_voltage f32 name loc fmt = Inl e \<Longrightarrow> e = ZeroDivisionError \<or> (\<exists>msg. e = ValueError msg)"
  unfolding decode_voltage_def fdiv_def Let_def
  by (auto split: sum.splits if_splits dest: py_int_error strptime_ymd_error)

lemma decode_accel_error:
  "decode_accel f32 name loc = Inl e \<Longrightarrow> e = ZeroDivisionError \<or> (\<exists>msg. e = ValueError msg)"
  unfolding decode_accel_def fdiv_def Let_def
  by (auto split: sum.splits if_splits dest: py_int_error strptime_ymd_error)

lemma tms_loop_not_raised:
  "tms_loop f32 api_num devices dev_num dev_info \<noteq> Inl (Raised cls msg)"
proof (induction devices arbitrary: dev_num dev_info)
  case Nil
  then show ?case by simp
next
  case (Cons dv devices)
  show ?case
  proof (cases "passes api_num dv")
    case False
    then show ?thesis
      by (simp add: tms_loop_not_passing Cons.IH)
  next
    case True
    then obtain m where h: "dev_hostapi dv = int api_num"
      and m: "match_model (dev_name dv) = Some m"
      by (auto simp: passes_def)
    show ?thesis
      unfolding tms_loop_matched [OF h refl m refl refl]
      using Cons.IH
      by (auto split: sum.splits if_splits dest: decode_voltage_error decode_accel_error)
  qed
qed

subsection \<open>No device passes\<close>

text \<open>
  Claim C5 says that the routine raises when no raw device passes both tests. The claim
  fails: \<^verbatim>\<open>FindDigiDevices\<close> prints a line and returns the empty list.
\<close>

theorem no_devices_counterexample:
  "FindDigiDevices (\<lambda>q. q) ''linux'' [] [\<lparr>dev_name = ''HDA Intel PCH'', dev_hostapi = 0\<rparr>] =
     ([''No compatible devices found''], Inr ([] :: rat dev_entry list))"
  by (simp add: loop_eval py_eval)

text \<open>
  Claim C5, amended. When no raw device passes both tests, \<^verbatim>\<open>FindDigiDevices\<close> prints
  \<^verbatim>\<open>No compatible devices found\<close> and returns the empty list, with no exception;
  \<^verbatim>\<open>TMSFindDevices\<close> returns no list: the call ends with an exception.
\<close>

theorem no_devices_outcome:
  assumes "\<forall>dv \<in> set devices. \<not> passes (select_api platform hapis) dv"
  shows "FindDigiDevices f32 platform hapis devices = ([''No compatible devices found''], Inr []) \<and>
         (\<exists>e. TMSFindDevices f32 platform hapis devices = Inl e)"
  using assms
  by (simp add: FindDigiDevices_def TMSFindDevices_def digi_loop_none_pass tms_loop_none_pass)

theorem no_devices_outcome_witness:
  "\<not> passes (select_api ''linux'' []) \<lparr>dev_name = ''HDA Intel PCH'', dev_hostapi = 0\<rparr> \<and>
   \<not> passes (select_api ''linux'' [])
       \<lparr>dev_name = ''485B39 212345602560000256000220615'', dev_hostapi = 1\<rparr> \<and>
   FindDigiDevices (\<lambda>q. q :: rat) ''linux'' []
     [\<lparr>dev_name = ''HDA Intel PCH'', dev_hostapi = 0\<rparr>,
      \<lparr>dev_name = ''485B39 212345602560000256000220615'', dev_hostapi = 1\<rparr>] =
     ([''No compatible devices found''], Inr []) \<and>
   (\<exists>e. TMSFindDevices (\<lambda>q. q :: rat) ''linux'' []
     [\<lparr>dev_name = ''HDA Intel PCH'', dev_hostapi = 0\<rparr>,
      \<lparr>dev_name = ''485B39 212345602560000256000220615'', dev_hostapi = 1\<rparr>] = Inl e)"
proof -
  have h: "\<forall>dv \<in> set [\<lparr>dev_name = ''HDA Intel PCH'', dev_hostapi = 0\<rparr>,
                  \<lparr>dev_name = ''485B39 212345602560000256000220615'', dev_hostapi = 1\<rparr>].
      \<not> passes (select_api ''linux'' []) dv"
    by (simp add: passes_def select_api_def py_eval)
  from h no_devices_outcome [OF h, of "\<lambda>q. q :: rat"] show ?thesis
    by simp
qed

subsection \<open>The exception classes of \<^verbatim>\<open>TMSFindDevices\<close>\<close>

text \<open>Three evaluations on concrete device lists, used below.\<close>

lemma example_tms_scan:
  "tms_loop (\<lambda>q. q) (select_api ''linux'' [])
     [\<lparr>dev_name = ''485B39 212345602560000256000220615'', dev_hostapi = 0\<rparr>] 0 [] =
   Inr [\<lparr>device = 0, model = ''485B39'', serial_number = ''123456'',
         date = \<lparr>year = 2022, month = 6, day = 15\<rparr>, format = 1,
         sensitivity_int = [256000, 256000], scale = [4096 / 125, 4096 / 125]\<rparr>]"
  by (simp add: loop_eval py_eval)

lemma example_other_format:
  "passes (select_api ''linux'' []) \<lparr>dev_name = ''333D01 9000777'', dev_hostapi = 0\<rparr> \<and>
   other_format (dev_name \<lparr>dev_name = ''333D01 9000777'', dev_hostapi = 0\<rparr>)"
  by (simp add: passes_def other_format_def fmt_of_def select_api_def py_eval)

lemma example_skip_scan:
  "tms_loop (\<lambda>q. q :: rat) (select_api ''linux'' [])
     [\<lparr>dev_name = ''HDA Intel PCH'', dev_hostapi = 0\<rparr>] 0 [] = Inr []"
  by (simp add: loop_eval py_eval)

text \<open>
  Claim C10. Neither \<^verbatim>\<open>FormatError\<close> nor \<^verbatim>\<open>NoDevicesFound\<close> is a global of
  TMS_Digital_Audio.py or a builtin. So a call of \<^verbatim>\<open>TMSFindDevices\<close> that reaches
  the branch for another format code (the devices before have been scanned without an
  exception, and the device passes both tests with a code other than 1, 2 and 3) ends
  with \<^verbatim>\<open>NameError\<close> for \<^verbatim>\<open>FormatError\<close>; a call whose loop ends with an empty
  \<^verbatim>\<open>dev_info\<close> ends with \<^verbatim>\<open>NameError\<close> for \<^verbatim>\<open>NoDevicesFound\<close>; and no call
  ends with an exception raised from a class looked up by name.
\<close>

theorem undefined_exception_names:
  "''FormatError'' \<notin> set (tms_globals @ py_builtins) \<and>
   ''NoDevicesFound'' \<notin> set (tms_globals @ py_builtins) \<and>
   (tms_loop f32 (select_api platform hapis) pre 0 [] = Inr info \<and>
    passes (select_api platform hapis) dv \<and> other_format (dev_name dv) \<longrightarrow>
      TMSFindDevices f32 platform hapis (pre @ dv # post) = Inl (NameError ''FormatError'')) \<and>
   (tms_loop f32 (select_api platform hapis) devices 0 [] = Inr [] \<longrightarrow>
      TMSFindDevices f32 platform hapis devices = Inl (NameError ''NoDevicesFound'')) \<and>
   (\<forall>cls msg. TMSFindDevices f32 platform hapis devices \<noteq> Inl (Raised cls msg))"
proof (intro conjI impI allI)
  show "''FormatError'' \<notin> set (tms_globals @ py_builtins)"
    by (simp add: tms_globals_def py_builtins_def)
  show "''NoDevicesFound'' \<notin> set (tms_globals @ py_builtins)"
    by (simp add: tms_globals_def py_builtins_def)
next
  assume a: "tms_loop f32 (select_api platform hapis) pre 0 [] = Inr info \<and>
    passes (select_api platform hapis) dv \<and> other_format (dev_name dv)"
  then have "tms_loop f32 (select_api platform hapis) (pre @ dv # post) 0 [] =
      Inl (NameError ''FormatError'')"
    by (simp add: tms_loop_append tms_loop_other_format)
  then show "TMSFindDevices f32 platform hapis (pre @ dv # post) = Inl (NameError ''FormatError'')"
    by (simp add: TMSFindDevices_def)
next
  assume "tms_loop f32 (select_api platform hapis) devices 0 [] = Inr []"
  then show "TMSFindDevices f32 platform hapis devices = Inl (NameError ''NoDevicesFound'')"
    by (simp add: TMSFindDevices_def no_devices_found_unbound)
next
  fix cls msg
  show "TMSFindDevices f32 platform hapis devices \<noteq> Inl (Raised cls msg)"
    using tms_loop_not_raised [of f32 "select_api platform hapis" devices 0 "[]" cls msg]
    by (auto simp: TMSFindDevices_def no_devices_found_unbound split: sum.splits)
qed

theorem undefined_exception_names_witness:
  "TMSFindDevices (\<lambda>q. q :: rat) ''linux'' []
     ([\<lparr>dev_name = ''485B39 212345602560000256000220615'', dev_hostapi = 0\<rparr>] @
      \<lparr>dev_name = ''333D01 9000777'', dev_hostapi = 0\<rparr> # []) = Inl (NameError ''FormatError'') \<and>
   TMSFindDevices (\<lambda>q. q :: rat) ''linux'' []
     [\<lparr>dev_name = ''HDA Intel PCH'', dev_hostapi = 0\<rparr>] = Inl (NameError ''NoDevicesFound'')"
proof -
  have a: "TMSFindDevices (\<lambda>q. q :: rat) ''linux'' []
     ([\<lparr>dev_name = ''485B39 212345602560000256000220615'', dev_hostapi = 0\<rparr>] @
      \<lparr>dev_name = ''333D01 9000777'', dev_hostapi = 0\<rparr> # []) = Inl (NameError ''FormatError'')"
    by (rule undefined_exception_names [THEN conjunct2, THEN conjunct2, THEN conjunct1, THEN mp,
          OF conjI [OF example_tms_scan example_other_format]])
  have b: "TMSFindDevices (\<lambda>q. q :: rat) ''linux'' []
     [\<lparr>dev_name = ''HDA Intel PCH'', dev_hostapi = 0\<rparr>] = Inl (NameError ''NoDevicesFound'')"
    by (rule undefined_exception_names [THEN conjunct2, THEN conjunct2, THEN conjunct2,
          THEN conjunct1, THEN mp, OF example_skip_scan])
  from a b show ?thesis by (rule conjI)
qed

subsection \<open>A format code other than 1, 2 and 3\<close>

lemma digi_loop_other_format:
  assumes "passes api_num dv" and "other_format (dev_name dv)"
  shows "\<exists>e. digi_loop f32 api_num (dv # devices) dev_num dev_info (Some v) out =
              digi_loop f32 api_num devices (dev_num + 1) (dev_info @ [e]) (Some v)
                (out @ [''Expecting 1, 2, or 3 format''])"
proof -
  from assms obtain m where h: "dev_hostapi dv = int api_num"
    and m: "match_model (dev_name dv) = Some m"
    and f: "fmt_of (dev_name dv) m \<noteq> ''1''" "fmt_of (dev_name dv) m \<noteq> ''2''"
      "fmt_of (dev_name dv) m \<noteq> ''3''"
    by (auto simp: passes_def other_format_def split: option.splits)
  show ?thesis
    using digi_loop_matched [OF h refl m refl refl, of f32 devices dev_num dev_info "Some v" out] f
    by (auto simp: fmt_of_def)
qed

lemma digi_loop_first_valid:
  assumes "FindDigiDevices f32 platform hapis [dv] = ([], Inr [e])"
  shows "\<exists>v. \<forall>devices. digi_loop f32 (select_api platform hapis) (dv # devices) 0 [] None [] =
           digi_loop f32 (select_api platform hapis) devices 1 [e] (Some v) []"
proof (cases "passes (select_api platform hapis) dv")
  case False
  with assms show ?thesis
    by (simp add: FindDigiDevices_def digi_loop_not_passing)
next
  case True
  then obtain m where h: "dev_hostapi dv = int (select_api platform hapis)"
    and m: "match_model (dev_name dv) = Some m"
    by (auto simp: passes_def)
  note step = digi_loop_matched [OF h refl m refl refl, of f32 _ 0 "[]" None "[]"]
  from assms have one: "digi_loop f32 (select_api platform hapis) [dv] 0 [] None [] = ([], Inr [e])"
    by (auto simp: FindDigiDevices_def split: prod.splits sum.splits if_splits)
  from one [unfolded step] obtain v where
    "(if py_slice (dev_name dv) (py_find (dev_name dv) m + 7) (py_find (dev_name dv) m + 8) = ''2'' \<or>
         py_slice (dev_name dv) (py_find (dev_name dv) m + 7) (py_find (dev_name dv) m + 8) = ''3''
      then decode_voltage f32 (dev_name dv) (py_find (dev_name dv) m)
             (py_slice (dev_name dv) (py_find (dev_name dv) m + 7) (py_find (dev_name dv) m + 8))
      else decode_accel f32 (dev_name dv) (py_find (dev_name dv) m)) = Inr v"
    and "py_slice (dev_name dv) (py_find (dev_name dv) m + 7) (py_find (dev_name dv) m + 8) = ''2'' \<or>
         py_slice (dev_name dv) (py_find (dev_name dv) m + 7) (py_find (dev_name dv) m + 8) = ''3'' \<or>
         py_slice (dev_name dv) (py_find (dev_name dv) m + 7) (py_find (dev_name dv) m + 8) = ''1''"
    and "e = mk_entry 0 (dev_name dv) (py_find (dev_name dv) m) v"
    by (auto split: if_splits sum.splits)
  then have "\<forall>devices. digi_loop f32 (select_api platform hapis) (dv # devices) 0 [] None [] =
           digi_loop f32 (select_api platform hapis) devices 1 [e] (Some v) []"
    unfolding step by auto
  then show ?thesis ..
qed

lemma example_digi_valid:
  "FindDigiDevices (\<lambda>q. q) ''linux'' []
     [\<lparr>dev_name = ''485B39 212345602560000256000220615'', dev_hostapi = 0\<rparr>] =
   ([], Inr [\<lparr>device = 0, model = ''485B39'', serial_number = ''123456'',
         date = \<lparr>year = 2022, month = 6, day = 15\<rparr>, format = 1,
         sensitivity_int = [256000, 256000], scale = [4096 / 125, 4096 / 125]\<rparr>])"
  by (simp add: loop_eval py_eval)

text \<open>
  Claim C6 says that a call over one valid device and one device with another format
  code returns the entry of the valid device alone. The claim fails:
  \<^verbatim>\<open>TMSFindDevices\<close> ends the whole call at the second device.
\<close>

theorem other_format_counterexample:
  "TMSFindDevices (\<lambda>q. q :: rat) ''linux'' []
     [\<lparr>dev_name = ''485B39 212345602560000256000220615'', dev_hostapi = 0\<rparr>,
      \<lparr>dev_name = ''333D01 9000777'', dev_hostapi = 0\<rparr>] = Inl (NameError ''FormatError'')"
  by (simp add: loop_eval py_eval)

text \<open>
  Claim C6, amended. A raw device that passes both tests and has another format code
  ends the whole call of \<^verbatim>\<open>TMSFindDevices\<close> with an exception, whatever valid
  devices the list holds: no sequence is returned. \<^verbatim>\<open>FindDigiDevices\<close> over a valid
  device followed by such a device does not end with an exception: it prints
  \<^verbatim>\<open>Expecting 1, 2, or 3 format\<close> and returns a sequence whose first entry is that of
  the valid device.
\<close>

theorem other_format_outcome:
  "((\<exists>dv \<in> set devices. passes (select_api platform hapis) dv \<and> other_format (dev_name dv)) \<longrightarrow>
      (\<exists>e. TMSFindDevices f32 platform hapis devices = Inl e)) \<and>
   (FindDigiDevices f32 platform hapis [valid] = ([], Inr [r]) \<and>
    passes (select_api platform hapis) other \<and> other_format (dev_name other) \<longrightarrow>
      (\<exists>rest. FindDigiDevices f32 platform hapis [valid, other] =
         ([''Expecting 1, 2, or 3 format''], Inr (r # rest))))"
proof (intro conjI impI)
  assume "\<exists>dv \<in> set devices. passes (select_api platform hapis) dv \<and> other_format (dev_name dv)"
  from tms_loop_aborts [OF this, of f32 0 "[]"]
  show "\<exists>e. TMSFindDevices f32 platform hapis devices = Inl e"
    by (auto simp: TMSFindDevices_def)
next
  assume a: "FindDigiDevices f32 platform hapis [valid] = ([], Inr [r]) \<and>
    passes (select_api platform hapis) other \<and> other_format (dev_name other)"
  from digi_loop_first_valid [of f32 platform hapis valid r] a obtain v where
    first: "digi_loop f32 (select_api platform hapis) [valid, other] 0 [] None [] =
            digi_loop f32 (select_api platform hapis) [other] 1 [r] (Some v) []"
    by blast
  from digi_loop_other_format [of "select_api platform hapis" other f32 "[]" 1 "[r]" v "[]"] a
  obtain e where
    second: "digi_loop f32 (select_api platform hapis) [other] 1 [r] (Some v) [] =
             digi_loop f32 (select_api platform hapis) [] (1 + 1) ([r] @ [e]) (Some v)
               ([] @ [''Expecting 1, 2, or 3 format''])"
    by blast
  have "FindDigiDevices f32 platform hapis [valid, other] =
         ([''Expecting 1, 2, or 3 format''], Inr (r # [e]))"
    unfolding FindDigiDevices_def first second by simp
  then show "\<exists>rest. FindDigiDevices f32 platform hapis [valid, other] =
         ([''Expecting 1, 2, or 3 format''], Inr (r # rest))" ..
qed

theorem other_format_outcome_witness:
  "(\<exists>e. TMSFindDevices (\<lambda>q. q :: rat) ''linux'' []
     [\<lparr>dev_name = ''485B39 212345602560000256000220615'', dev_hostapi = 0\<rparr>,
      \<lparr>dev_name = ''333D01 9000777'', dev_hostapi = 0\<rparr>] = Inl e) \<and>
   (\<exists>rest. FindDigiDevices (\<lambda>q. q) ''linux'' []
     [\<lparr>dev_name = ''485B39 212345602560000256000220615'', dev_hostapi = 0\<rparr>,
      \<lparr>dev_name = ''333D01 9000777'', dev_hostapi = 0\<rparr>] =
     ([''Expecting 1, 2, or 3 format''],
      Inr (\<lparr>device = 0, model = ''485B39'', serial_number = ''123456'',
         date = \<lparr>year = 2022, month = 6, day = 15\<rparr>, format = 1,
         sensitivity_int = [256000, 256000], scale = [4096 / 125, 4096 / 125]\<rparr> # rest)))"
proof -
  have mem: "\<exists>dv \<in> set [\<lparr>dev_name = ''485B39 212345602560000256000220615'', dev_hostapi = 0\<rparr>,
      \<lparr>dev_name = ''333D01 9000777'', dev_hostapi = 0\<rparr>].
      passes (select_api ''linux'' []) dv \<and> other_format (dev_name dv)"
    using example_other_format by simp
  have a: "\<exists>e. TMSFindDevices (\<lambda>q. q :: rat) ''linux'' []
     [\<lparr>dev_name = ''485B39 212345602560000256000220615'', dev_hostapi = 0\<rparr>,
      \<lparr>dev_name = ''333D01 9000777'', dev_hostapi = 0\<rparr>] = Inl e"
    by (rule other_format_outcome [THEN conjunct1, THEN mp, OF mem])
  have b: "\<exists>rest. FindDigiDevices (\<lambda>q. q) ''linux'' []
     [\<lparr>dev_name = ''485B39 212345602560000256000220615'', dev_hostapi = 0\<rparr>,
      \<lparr>dev_name = ''333D01 9000777'', dev_hostapi = 0\<rparr>] =
     ([''Expecting 1, 2, or 3 format''],
      Inr (\<lparr>device = 0, model = ''485B39'', serial_number = ''123456'',
         date = \<lparr>year = 2022, month = 6, day = 15\<rparr>, format = 1,
         sensitivity_int = [256000, 256000], scale = [4096 / 125, 4096 / 125]\<rparr> # rest))"
    by (rule other_format_outcome [THEN conjunct2, THEN mp,
          OF conjI [OF example_digi_valid example_other_format]])
  from a b show ?thesis by (rule conjI)
qed

text \<open>
  Claim C1 says that no entry is produced for a device whose name holds a model and whose
  format code is none of 1, 2 and 3. \<^verbatim>\<open>FindDigiDevices\<close> over a valid device followed
  by the device named \<^verbatim>\<open>333D01 9000777\<close> returns two entries: the second has the
  number, model and serial number of that device, and the date, format, sensitivity and
  scale of the first.
\<close>

theorem digi_appends_for_other_format:
  "FindDigiDevices (\<lambda>q. q) ''linux'' []
     [\<lparr>dev_name = ''485B39 212345602560000256000220615'', dev_hostapi = 0\<rparr>,
      \<lparr>dev_name = ''333D01 9000777'', dev_hostapi = 0\<rparr>] =
   ([''Expecting 1, 2, or 3 format''],
    Inr [\<lparr>device = 0, model = ''485B39'', serial_number = ''123456'',
          date = \<lparr>year = 2022, month = 6, day = 15\<rparr>, format = 1,
          sensitivity_int = [256000, 256000], scale = [4096 / 125, 4096 / 125]\<rparr>,
         \<lparr>device = 1, model = ''333D01'', serial_number = ''000777'',
          date = \<lparr>year = 2022, month = 6, day = 15\<rparr>, format = 1,
          sensitivity_int = [256000, 256000], scale = [4096 / 125, 4096 / 125]\<rparr>]) \<and>
   other_format ''333D01 9000777''"
  by (simp add: loop_eval py_eval other_format_def fmt_of_def)

subsection \<open>The name of the specification's scenario\<close>

text \<open>
  Claim C7 gives the name \<^verbatim>\<open>USB Audio Device (485B39 2 123456 0256000 0256000 220615)\<close>.
  The model starts at offset 18, and with the spaces between the fields the offsets of
  the code read \<^verbatim>\<open> 12345\<close> as the serial number and \<^verbatim>\<open>6 02560\<close> as the first
  sensitivity, which \<^verbatim>\<open>int\<close> rejects: the claim fails.
\<close>

theorem spec_name_counterexample:
  "py_find ''USB Audio Device (485B39 2 123456 0256000 0256000 220615)'' ''485B'' = 18 \<and>
   py_slice ''USB Audio Device (485B39 2 123456 0256000 0256000 220615)'' (18 + 8) (18 + 14) =
     '' 12345'' \<and>
   py_slice ''USB Audio Device (485B39 2 123456 0256000 0256000 220615)'' (18 + 14) (18 + 21) =
     ''6 02560'' \<and>
   FindDigiDevices (\<lambda>q. q :: rat) ''linux'' []
     [\<lparr>dev_name = ''USB Audio Device (485B39 2 123456 0256000 0256000 220615)'',
       dev_hostapi = 0\<rparr>] =
     ([], Inl (ValueError ''invalid literal for int() with base 10''))"
  by (simp add: loop_eval py_eval)

text \<open>
  Claim C7, amended. For the name
  \<^verbatim>\<open>USB Audio Device (485B39 212345602560000256000220615)\<close>, whose fields follow the
  format code with no spaces between them, decoding at offset 18, where 485B39 begins,
  gives the model 485B39, VOLTAGE from the code 2, the serial number 123456, the
  sensitivities 256000 and 256000, the scales 8388608 / 256000 (narrowed to float32) and
  the date 2022-06-15.
\<close>

theorem contiguous_name_decoded:
  "py_find ''USB Audio Device (485B39 212345602560000256000220615)'' ''485B'' = 18 \<and>
   FindDigiDevices f32 ''linux'' []
     [\<lparr>dev_name = ''USB Audio Device (485B39 212345602560000256000220615)'',
       dev_hostapi = 0\<rparr>] =
     ([], Inr [\<lparr>device = 0, model = ''485B39'', serial_number = ''123456'',
           date = \<lparr>year = 2022, month = 6, day = 15\<rparr>, format = VOLTAGE,
           sensitivity_int = [256000, 256000],
           scale = [f32 (8388608 / 256000), f32 (8388608 / 256000)]\<rparr>])"
  by (simp add: loop_eval py_eval VOLTAGE_def)

end
